theory Spec2Isabelle
  imports Complex_Main
begin

section \<open>JavaScript values used by the translation layer\<close>

text \<open>
  A JavaScript number is only ever passed through or, for token counts and clock readings,
  added and divided as a whole number far below \<open>2^53\<close>. Token counts and epoch seconds are
  modelled as \<open>int\<close>, clock readings as \<open>nat\<close>, sampling parameters as \<open>real\<close>.
\<close>

type_synonym js_number = real

text \<open>
  An optional string property is \<open>string option\<close>; \<open>None\<close> stands for \<open>undefined\<close> (and
  \<open>null\<close>). \<open>truthy\<close> is the test JavaScript applies in \<open>if (x)\<close> and \<open>x && y\<close>: a string is
  truthy when it is not empty.
\<close>

fun truthy :: "string option \<Rightarrow> bool" where
  "truthy None = False"
| "truthy (Some s) = (s \<noteq> [])"

text \<open>\<open>Array.prototype.join\<close> on an array of strings.\<close>

fun join :: "string \<Rightarrow> string list \<Rightarrow> string" where
  "join sep [] = []"
| "join sep [x] = x"
| "join sep (x # y # ys) = x @ sep @ join sep (y # ys)"

text \<open>
  The string conversion JavaScript applies when a value is interpolated into a template
  literal or appended to a string with \<open>+=\<close>: \<open>undefined\<close> prints as its name. Where the
  source has tested the value to be truthy first, this is the value itself.
\<close>

fun toString :: "string option \<Rightarrow> string" where
  "toString None = ''undefined''"
| "toString (Some s) = s"

text \<open>An array element as \<open>join\<close> prints it: \<open>undefined\<close> prints as the empty string.\<close>

fun joinElement :: "string option \<Rightarrow> string" where
  "joinElement None = []"
| "joinElement (Some s) = s"

text \<open>A non-negative whole number interpolated into a template literal: its decimal digits.\<close>

function decimal :: "nat \<Rightarrow> string" where
  "decimal n =
     (if n < 10 then [char_of (48 + n)]
      else decimal (n div 10) @ [char_of (48 + n mod 10)])"
  by pat_completeness auto
termination
  by (relation "measure (\<lambda>n. n)") auto

declare decimal.simps [simp del]

text \<open>An opaque JSON value (the \<open>parameters\<close> schema of a tool definition).\<close>

datatype json =
    JNull
  | JBool bool
  | JNum int
  | JStr string
  | JArr "json list"
  | JObj "(string \<times> json) list"

section \<open>The responses dialect (\<open>types.ts\<close>)\<close>

datatype InputRole = SystemRole | UserRole | AssistantRole | DeveloperRole

record ResponsesContentPart =
  part_type :: string
  part_text :: "string option"
  part_image_url :: "string option"

datatype ResponsesContent =
    ContentString string
  | ContentParts "ResponsesContentPart list"

record ResponsesInputItem =
  item_role :: InputRole
  item_content :: "ResponsesContent option"
  item_type :: "string option"
  item_tool_call_id :: "string option"
  item_output :: "string option"

record ResponsesToolFunction =
  rtf_name :: string
  rtf_description :: "string option"
  rtf_parameters :: "json option"

record ResponsesTool =
  rtool_type :: string
  rtool_function :: "ResponsesToolFunction option"

record ToolChoiceFunction =
  tcf_name :: "string option"

datatype RequestToolChoice =
    ChoiceString string
  | ChoiceObject string "ToolChoiceFunction option"

datatype ResponsesInput =
    InputString string
  | InputItems "ResponsesInputItem list"

record ResponsesApiRequest =
  req_model :: string
  req_input :: "ResponsesInput option"
  req_instructions :: "string option"
  req_tools :: "ResponsesTool list option"
  req_tool_choice :: "RequestToolChoice option"
  req_max_output_tokens :: "int option"
  req_temperature :: "js_number option"
  req_top_p :: "js_number option"
  req_stream :: "bool option"

record ResponsesUsage =
  input_tokens :: int
  output_tokens :: int
  total_tokens :: int

record ResponsesOutputContent =
  oc_type :: string
  oc_text :: "string option"

record ResponsesOutputItem =
  out_id :: string
  out_type :: string
  out_role :: "string option"
  out_status :: "string option"
  out_content :: "ResponsesOutputContent list option"
  out_name :: "string option"
  out_arguments :: "string option"
  out_call_id :: "string option"

record ResponsesApiResponse =
  resp_id :: string
  resp_object :: string
  resp_created_at :: int
  resp_model :: string
  resp_output :: "ResponsesOutputItem list"
  resp_output_text :: string
  resp_usage :: "ResponsesUsage option"
  resp_status :: string

section \<open>The canonical chat-completions dialect\<close>

text \<open>
  Modelled from the spec: the type declarations of
  \<open>~/services/copilot/create-chat-completions\<close> (\<open>Message\<close>, \<open>ContentPart\<close>, \<open>Tool\<close>,
  \<open>ChatCompletionsPayload\<close>, \<open>ChatCompletionResponse\<close>, \<open>ChatCompletionChunk\<close>) are not
  among the source files. The shapes below follow section 3 of the specification and the
  fields the translation functions and their tests read and write.
\<close>

datatype Role = System | User | Assistant | Tool

text \<open>
  An input role kept as it is: the canonical role of the same name. The translation maps
  the developer role to \<open>System\<close> before \<open>sameRole\<close> is reached.
\<close>

fun sameRole :: "InputRole \<Rightarrow> Role" where
  "sameRole SystemRole = System"
| "sameRole UserRole = User"
| "sameRole AssistantRole = Assistant"
| "sameRole DeveloperRole = System"

record ContentPart =
  cp_type :: string
  cp_text :: "string option"
  cp_image_url :: "string option"

datatype MessageContent =
    MsgString string
  | MsgParts "ContentPart list"

text \<open>A tool call \<open>{id, type, function: {name, arguments}}\<close>, its function block flattened.\<close>

record ToolCall =
  call_id :: string
  call_name :: string
  call_arguments :: string

record Message =
  msg_role :: Role
  msg_content :: "MessageContent option"
  msg_tool_call_id :: "string option"
  msg_tool_calls :: "ToolCall list option"

record Tool =
  tool_type :: string
  tool_name :: string
  tool_description :: "string option"
  tool_parameters :: json

text \<open>
  The canonical tool-choice directive: at run time either the string the request carried,
  or the object \<open>{type: "function", function: {name}}\<close>.
\<close>

datatype ChatToolChoice =
    ChoiceLiteral string
  | PinnedFunction string

record ChatCompletionsPayload =
  chat_model :: string
  chat_messages :: "Message list"
  chat_max_tokens :: "int option"
  chat_temperature :: "js_number option"
  chat_top_p :: "js_number option"
  chat_stream :: "bool option"
  chat_tools :: "Tool list option"
  chat_tool_choice :: "ChatToolChoice option"

record ChatUsage =
  prompt_tokens :: int
  completion_tokens :: int
  upstream_total_tokens :: "int option"

record ResponseChoice =
  rc_message :: Message
  rc_finish_reason :: "string option"

record ChatCompletionResponse =
  cr_id :: string
  cr_created :: int
  cr_model :: string
  cr_choices :: "ResponseChoice list"
  cr_usage :: "ChatUsage option"

section \<open>Request normalisation (\<open>translation.ts\<close>)\<close>

definition textBearing :: "ResponsesContentPart \<Rightarrow> bool" where
  "textBearing part \<longleftrightarrow>
     (part_type part = ''input_text'' \<or> part_type part = ''output_text'')
     \<and> truthy (part_text part)"

text \<open>
  \<open>translateContent\<close>: \<open>None\<close> is the \<open>null\<close> result. An absent content and the empty string
  are falsy; an array, also the empty one, is not. The text of a part that passed the
  filter is present and not empty.
\<close>

fun translateContent :: "ResponsesContent option \<Rightarrow> string option" where
  "translateContent None = None"
| "translateContent (Some (ContentString s)) = (if s = [] then None else Some s)"
| "translateContent (Some (ContentParts content)) =
     (let textParts = map (\<lambda>part. joinElement (part_text part)) (filter textBearing content)
      in if length textParts > 0 then Some (join [CHR 0x0A] textParts) else None)"

definition translateInputItem :: "ResponsesInputItem \<Rightarrow> Message option" where
  "translateInputItem item =
     (if item_type item = Some ''tool_result'' \<and> truthy (item_tool_call_id item) then
        Some \<lparr> msg_role = Tool,
               msg_content = Some (MsgString
                 (case item_output item of
                    Some out \<Rightarrow> out
                  | None \<Rightarrow>
                      (case item_content item of
                         Some (ContentString s) \<Rightarrow> s
                       | _ \<Rightarrow> []))),
               msg_tool_call_id = item_tool_call_id item,
               msg_tool_calls = None \<rparr>
      else
        (case translateContent (item_content item) of
           None \<Rightarrow> None
         | Some content \<Rightarrow>
             Some \<lparr> msg_role =
                      (if item_role item = DeveloperRole then System
                       else sameRole (item_role item)),
                    msg_content = Some (MsgString content),
                    msg_tool_call_id = None,
                    msg_tool_calls = None \<rparr>))"

fun translateToolsLoop :: "ResponsesTool list \<Rightarrow> Tool list \<Rightarrow> Tool list" where
  "translateToolsLoop [] result = result"
| "translateToolsLoop (tool # tools) result =
     translateToolsLoop tools
       (case rtool_function tool of
          Some f \<Rightarrow>
            (if rtool_type tool = ''function'' then
               result @ [\<lparr> tool_type = ''function'',
                            tool_name = rtf_name f,
                            tool_description = rtf_description f,
                            tool_parameters =
                              (case rtf_parameters f of Some p \<Rightarrow> p | None \<Rightarrow> JObj []) \<rparr>]
             else result)
        | None \<Rightarrow> result)"

definition translateTools :: "ResponsesTool list option \<Rightarrow> Tool list option" where
  "translateTools tools =
     (case tools of
        None \<Rightarrow> None
      | Some ts \<Rightarrow>
          (if length ts = 0 then None
           else (let result = translateToolsLoop ts []
                 in if length result > 0 then Some result else None)))"

fun translateItemsLoop :: "ResponsesInputItem list \<Rightarrow> Message list \<Rightarrow> Message list" where
  "translateItemsLoop [] messages = messages"
| "translateItemsLoop (item # items) messages =
     translateItemsLoop items
       (case translateInputItem item of
          Some message \<Rightarrow> messages @ [message]
        | None \<Rightarrow> messages)"

text \<open>
  The tool-choice branch of \<open>translateResponsesToChat\<close>. A present value is truthy unless
  it is the empty string; a string is assigned as it is (the cast to the three literals is
  a type assertion, erased at run time). \<open>pinnedName\<close> is \<open>tool_choice.function?.name\<close>.
\<close>

definition pinnedName :: "ToolChoiceFunction option \<Rightarrow> string option" where
  "pinnedName fn = (case fn of None \<Rightarrow> None | Some f \<Rightarrow> tcf_name f)"

definition translateToolChoice :: "RequestToolChoice option \<Rightarrow> ChatToolChoice option" where
  "translateToolChoice tool_choice =
     (case tool_choice of
        None \<Rightarrow> None
      | Some (ChoiceString s) \<Rightarrow> (if s = [] then None else Some (ChoiceLiteral s))
      | Some (ChoiceObject ty fn) \<Rightarrow>
          (if ty = ''function'' \<and> truthy (pinnedName fn)
           then Some (PinnedFunction (toString (pinnedName fn)))
           else None))"

definition translateResponsesToChat :: "ResponsesApiRequest \<Rightarrow> ChatCompletionsPayload" where
  "translateResponsesToChat request =
     (let messages0 =
            (if truthy (req_instructions request)
             then [\<lparr> msg_role = System,
                     msg_content = Some (MsgString (toString (req_instructions request))),
                     msg_tool_call_id = None,
                     msg_tool_calls = None \<rparr>]
             else []);
          messages =
            (case req_input request of
               Some (InputString s) \<Rightarrow>
                 messages0 @ [\<lparr> msg_role = User,
                                 msg_content = Some (MsgString s),
                                 msg_tool_call_id = None,
                                 msg_tool_calls = None \<rparr>]
             | Some (InputItems items) \<Rightarrow> translateItemsLoop items messages0
             | None \<Rightarrow> messages0);
          tools = translateTools (req_tools request);
          toolChoice = translateToolChoice (req_tool_choice request)
      in \<lparr> chat_model = req_model request,
           chat_messages = messages,
           chat_max_tokens = req_max_output_tokens request,
           chat_temperature = req_temperature request,
           chat_top_p = req_top_p request,
           chat_stream = req_stream request,
           chat_tools = tools,
           chat_tool_choice = toolChoice \<rparr>)"

section \<open>Response projection (\<open>translation.ts\<close>)\<close>

definition translateUsage :: "ChatUsage option \<Rightarrow> ResponsesUsage option" where
  "translateUsage usage =
     (case usage of
        None \<Rightarrow> None
      | Some u \<Rightarrow>
          Some \<lparr> input_tokens = prompt_tokens u,
                 output_tokens = completion_tokens u,
                 total_tokens = prompt_tokens u + completion_tokens u \<rparr>)"

definition isTextPart :: "ContentPart \<Rightarrow> bool" where
  "isTextPart p \<longleftrightarrow> cp_type p = ''text'' \<and> cp_text p \<noteq> None"

fun extractTextContent :: "MessageContent option \<Rightarrow> string" where
  "extractTextContent (Some (MsgString s)) = s"
| "extractTextContent None = []"
| "extractTextContent (Some (MsgParts content)) =
     join [] (map (\<lambda>p. joinElement (cp_text p)) (filter isTextPart content))"

text \<open>\<open>if (message.content)\<close>: \<open>null\<close> and the empty string are falsy, an array is truthy.\<close>

fun contentTruthy :: "MessageContent option \<Rightarrow> bool" where
  "contentTruthy None = False"
| "contentTruthy (Some (MsgString s)) = (s \<noteq> [])"
| "contentTruthy (Some (MsgParts ps)) = True"

definition functionCallItem :: "ToolCall \<Rightarrow> ResponsesOutputItem" where
  "functionCallItem toolCall =
     \<lparr> out_id = ''fc_'' @ call_id toolCall,
       out_type = ''function_call'',
       out_role = None,
       out_status = Some ''completed'',
       out_content = None,
       out_name = Some (call_name toolCall),
       out_arguments = Some (call_arguments toolCall),
       out_call_id = Some (call_id toolCall) \<rparr>"

text \<open>One iteration of the loop over the choices: the pair is \<open>(output, outputText)\<close>.\<close>

definition projectChoice ::
  "string \<Rightarrow> ResponseChoice \<Rightarrow> ResponsesOutputItem list \<times> string
     \<Rightarrow> ResponsesOutputItem list \<times> string" where
  "projectChoice response_id choice acc =
     (let message = rc_message choice;
          (output, outputText) = acc;
          textContent = extractTextContent (msg_content message);
          (output1, outputText1) =
            (if contentTruthy (msg_content message) then
               (if textContent \<noteq> [] then
                  (output @ [\<lparr> out_id = ''msg_'' @ response_id,
                                out_type = ''message'',
                                out_role = Some ''assistant'',
                                out_status = Some ''completed'',
                                out_content = Some [\<lparr> oc_type = ''output_text'',
                                                      oc_text = Some textContent \<rparr>],
                                out_name = None,
                                out_arguments = None,
                                out_call_id = None \<rparr>],
                   textContent)
                else (output, outputText))
             else (output, outputText));
          output2 =
            (case msg_tool_calls message of
               Some toolCalls \<Rightarrow> output1 @ map functionCallItem toolCalls
             | None \<Rightarrow> output1)
      in (output2, outputText1))"

definition translateChatToResponses ::
  "ChatCompletionResponse \<Rightarrow> string \<Rightarrow> ResponsesApiResponse" where
  "translateChatToResponses response model =
     (let (output, outputText) =
            fold (projectChoice (cr_id response)) (cr_choices response) ([], [])
      in \<lparr> resp_id = cr_id response,
           resp_object = ''response'',
           resp_created_at = cr_created response,
           resp_model = (if cr_model response \<noteq> [] then cr_model response else model),
           resp_output = output,
           resp_output_text = outputText,
           resp_usage = translateUsage (cr_usage response),
           resp_status = ''completed'' \<rparr>)"

section \<open>The streaming event sequencer (\<open>handler.ts\<close>)\<close>

record PartialResponse =
  pr_id :: "string option"
  pr_object :: "string option"
  pr_created_at :: "int option"
  pr_model :: "string option"
  pr_output :: "ResponsesOutputItem list option"
  pr_output_text :: "string option"
  pr_usage :: "ResponsesUsage option"
  pr_status :: "string option"

record ResponsesStreamEvent =
  ev_type :: string
  ev_delta :: "string option"
  ev_item :: "ResponsesOutputItem option"
  ev_output_index :: "nat option"
  ev_content_index :: "nat option"
  ev_response :: "PartialResponse option"

text \<open>
  What \<open>stream.writeSSE\<close> is given: the event name and the event object (the source hands
  over its \<open>JSON.stringify\<close>; the object is kept here so that its fields can be read).
  The stream is the list of messages written so far, oldest first. Writing is taken to
  succeed: the transport belongs to the framework.
\<close>

record SSEMessage =
  sse_event :: string
  sse_data :: ResponsesStreamEvent

type_synonym SSEStream = "SSEMessage list"

definition writeSSE :: "SSEStream \<Rightarrow> SSEMessage \<Rightarrow> SSEStream" where
  "writeSSE stream message = stream @ [message]"

text \<open>
  Modelled from the spec: the declaration of \<open>ChatCompletionChunk\<close> is not among the
  source files. A partial-update record carries an id and per-choice deltas, each with
  optional text, optional tool-call fragments (identified by an index) and an optional
  finish reason. \<open>JSON.parse\<close> checks no shape, so at run time \<open>choices\<close> and \<open>delta\<close> can be
  missing and an element of \<open>tool_calls\<close> can be \<open>null\<close> (\<open>None\<close> in the list); reading a
  property through any of them throws a \<open>TypeError\<close>. These are all the places where
  processing a parsed value can throw: a \<open>choices\<close> that cannot be iterated behaves as a
  missing one, a choice that is \<open>null\<close> as a choice without \<open>delta\<close>, and a truthy
  \<open>tool_calls\<close> that cannot be iterated as an array whose first element is \<open>null\<close>.
\<close>

record ToolCallFunctionDelta =
  fn_name :: "string option"
  fn_arguments :: "string option"

record ToolCallDelta =
  tc_index :: nat
  tc_id :: "string option"
  tc_function :: "ToolCallFunctionDelta option"

record Delta =
  delta_content :: "string option"
  delta_tool_calls :: "ToolCallDelta option list option"

record ChunkChoice =
  choice_delta :: "Delta option"
  choice_finish_reason :: "string option"

record ChatCompletionChunk =
  chunk_id :: "string option"
  chunk_choices :: "ChunkChoice list option"

text \<open>
  The \<open>data\<close> of a raw event: \<open>Unparseable\<close> when \<open>JSON.parse\<close> throws (absent data, the
  \<open>[DONE]\<close> sentinel, broken JSON) or yields \<open>null\<close>, whose first property read throws;
  otherwise the parsed value read as a chunk.
\<close>

datatype RawEvent =
    Unparseable
  | Parsed ChatCompletionChunk

datatype js_error = SyntaxError | TypeError

record StreamState =
  outputText :: string
  responseId :: string
  state_model :: string
  outputIndex :: nat

text \<open>\<open>now\<close> is the reading of \<open>Date.now()\<close>, in milliseconds.\<close>

definition createStreamState :: "string \<Rightarrow> nat \<Rightarrow> StreamState" where
  "createStreamState model now =
     \<lparr> outputText = [],
       responseId = ''resp_'' @ decimal now,
       state_model = model,
       outputIndex = 0 \<rparr>"

definition sendCreatedEvent :: "SSEStream \<Rightarrow> StreamState \<Rightarrow> nat \<Rightarrow> SSEStream" where
  "sendCreatedEvent stream state now =
     writeSSE stream
       \<lparr> sse_event = ''response.created'',
         sse_data =
           \<lparr> ev_type = ''response.created'',
             ev_delta = None,
             ev_item = None,
             ev_output_index = None,
             ev_content_index = None,
             ev_response =
               Some \<lparr> pr_id = Some (responseId state),
                      pr_object = Some ''response'',
                      pr_created_at = Some (int (now div 1000)),
                      pr_model = Some (state_model state),
                      pr_output = Some [],
                      pr_output_text = None,
                      pr_usage = None,
                      pr_status = Some ''in_progress'' \<rparr> \<rparr> \<rparr>"

definition sendTextDeltaEvent :: "SSEStream \<Rightarrow> string \<Rightarrow> nat \<Rightarrow> SSEStream" where
  "sendTextDeltaEvent stream content outputIndex' =
     writeSSE stream
       \<lparr> sse_event = ''response.output_text.delta'',
         sse_data =
           \<lparr> ev_type = ''response.output_text.delta'',
             ev_delta = Some content,
             ev_item = None,
             ev_output_index = Some outputIndex',
             ev_content_index = Some 0,
             ev_response = None \<rparr> \<rparr>"

definition functionName :: "ToolCallDelta \<Rightarrow> string option" where
  "functionName toolCall = (case tc_function toolCall of None \<Rightarrow> None | Some f \<Rightarrow> fn_name f)"

definition functionArguments :: "ToolCallDelta \<Rightarrow> string option" where
  "functionArguments toolCall =
     (case tc_function toolCall of None \<Rightarrow> None | Some f \<Rightarrow> fn_arguments f)"

definition sendFunctionCallStartEvent ::
  "SSEStream \<Rightarrow> ToolCallDelta \<Rightarrow> nat \<Rightarrow> SSEStream" where
  "sendFunctionCallStartEvent stream toolCall outputIndex' =
     writeSSE stream
       \<lparr> sse_event = ''response.function_call_arguments.start'',
         sse_data =
           \<lparr> ev_type = ''response.function_call_arguments.start'',
             ev_delta = None,
             ev_item =
               Some \<lparr> out_id = ''fc_'' @ toString (tc_id toolCall),
                      out_type = ''function_call'',
                      out_role = None,
                      out_status = Some ''in_progress'',
                      out_content = None,
                      out_name = functionName toolCall,
                      out_arguments = None,
                      out_call_id = tc_id toolCall \<rparr>,
             ev_output_index = Some outputIndex',
             ev_content_index = None,
             ev_response = None \<rparr> \<rparr>"

definition sendFunctionCallDeltaEvent :: "SSEStream \<Rightarrow> string \<Rightarrow> nat \<Rightarrow> SSEStream" where
  "sendFunctionCallDeltaEvent stream args outputIndex' =
     writeSSE stream
       \<lparr> sse_event = ''response.function_call_arguments.delta'',
         sse_data =
           \<lparr> ev_type = ''response.function_call_arguments.delta'',
             ev_delta = Some args,
             ev_item = None,
             ev_output_index = Some outputIndex',
             ev_content_index = None,
             ev_response = None \<rparr> \<rparr>"

definition sendTextDoneEvent :: "SSEStream \<Rightarrow> nat \<Rightarrow> SSEStream" where
  "sendTextDoneEvent stream outputIndex' =
     writeSSE stream
       \<lparr> sse_event = ''response.output_text.done'',
         sse_data =
           \<lparr> ev_type = ''response.output_text.done'',
             ev_delta = None,
             ev_item = None,
             ev_output_index = Some outputIndex',
             ev_content_index = Some 0,
             ev_response = None \<rparr> \<rparr>"

definition sendDoneEvent :: "SSEStream \<Rightarrow> StreamState \<Rightarrow> nat \<Rightarrow> SSEStream" where
  "sendDoneEvent stream state now =
     writeSSE stream
       \<lparr> sse_event = ''response.done'',
         sse_data =
           \<lparr> ev_type = ''response.done'',
             ev_delta = None,
             ev_item = None,
             ev_output_index = None,
             ev_content_index = None,
             ev_response =
               Some \<lparr> pr_id = Some (responseId state),
                      pr_object = Some ''response'',
                      pr_created_at = Some (int (now div 1000)),
                      pr_model = Some (state_model state),
                      pr_output = None,
                      pr_output_text = Some (outputText state),
                      pr_usage = None,
                      pr_status = Some ''completed'' \<rparr> \<rparr> \<rparr>"

text \<open>
  The loop of \<open>processToolCalls\<close> over the fragments of one delta, with the exception it
  ends in: at a \<open>null\<close> fragment \<open>toolCall.function\<close> throws, and what was written for the
  earlier fragments stays.
\<close>

fun processToolCallsLoop ::
  "ToolCallDelta option list \<Rightarrow> SSEStream \<Rightarrow> nat \<Rightarrow> js_error option \<times> SSEStream" where
  "processToolCallsLoop [] stream outputIndex' = (None, stream)"
| "processToolCallsLoop (None # toolCalls) stream outputIndex' = (Some TypeError, stream)"
| "processToolCallsLoop (Some toolCall # toolCalls) stream outputIndex' =
     (let stream1 =
            (if truthy (functionName toolCall)
             then sendFunctionCallStartEvent stream toolCall outputIndex'
             else stream);
          stream2 =
            (if truthy (functionArguments toolCall)
             then sendFunctionCallDeltaEvent stream1
                    (toString (functionArguments toolCall)) outputIndex'
             else stream1)
      in processToolCallsLoop toolCalls stream2 outputIndex')"

definition processToolCalls ::
  "ToolCallDelta option list option \<Rightarrow> SSEStream \<Rightarrow> nat \<Rightarrow> js_error option \<times> SSEStream" where
  "processToolCalls toolCalls stream outputIndex' =
     (case toolCalls of
        None \<Rightarrow> (None, stream)
      | Some tcs \<Rightarrow> processToolCallsLoop tcs stream outputIndex')"

text \<open>
  \<open>processChoice\<close>, with the exception it ends in and the stream and the state as it
  leaves them. It throws before it has written or changed anything when the choice has
  no \<open>delta\<close>; when \<open>processToolCalls\<close> throws, the text delta and the events of the earlier
  fragments are written already and the text-done event is not reached.
\<close>

definition processChoice ::
  "ChunkChoice \<Rightarrow> SSEStream \<Rightarrow> StreamState
     \<Rightarrow> js_error option \<times> SSEStream \<times> StreamState" where
  "processChoice choice stream state =
     (case choice_delta choice of
        None \<Rightarrow> (Some TypeError, stream, state)
      | Some delta \<Rightarrow>
          (let state1 =
                 (if truthy (delta_content delta)
                  then state\<lparr>outputText := outputText state @ toString (delta_content delta)\<rparr>
                  else state);
               stream1 =
                 (if truthy (delta_content delta)
                  then sendTextDeltaEvent stream (toString (delta_content delta))
                         (outputIndex state1)
                  else stream);
               (thrown, stream2) =
                 (case delta_tool_calls delta of
                    Some tcs \<Rightarrow> processToolCalls (Some tcs) stream1 (outputIndex state1)
                  | None \<Rightarrow> (None, stream1))
           in case thrown of
                Some e \<Rightarrow> (Some e, stream2, state1)
              | None \<Rightarrow>
                  (None,
                   (if truthy (choice_finish_reason choice) \<and> outputText state1 \<noteq> []
                    then sendTextDoneEvent stream2 (outputIndex state1)
                    else stream2),
                   state1)))"

text \<open>
  The \<open>for\<close> loop over \<open>chunk.choices\<close>: an exception leaves the loop at once, and what was
  written and changed before it stays.
\<close>

fun processChoices ::
  "ChunkChoice list \<Rightarrow> SSEStream \<Rightarrow> StreamState
     \<Rightarrow> js_error option \<times> SSEStream \<times> StreamState" where
  "processChoices [] stream state = (None, stream, state)"
| "processChoices (choice # choices) stream state =
     (case processChoice choice stream state of
        (Some e, stream', state') \<Rightarrow> (Some e, stream', state')
      | (None, stream', state') \<Rightarrow> processChoices choices stream' state')"

text \<open>The body of the \<open>try\<close> block of \<open>processStreamChunk\<close>, with the exception it ends in.\<close>

fun tryBlock ::
  "RawEvent \<Rightarrow> SSEStream \<Rightarrow> StreamState \<Rightarrow> js_error option \<times> SSEStream \<times> StreamState" where
  "tryBlock Unparseable stream state = (Some SyntaxError, stream, state)"
| "tryBlock (Parsed chunk) stream state =
     (let state1 =
            (if truthy (chunk_id chunk)
             then state\<lparr>responseId := toString (chunk_id chunk)\<rparr>
             else state)
      in case chunk_choices chunk of
           None \<Rightarrow> (Some TypeError, stream, state1)
         | Some choices \<Rightarrow> processChoices choices stream state1)"

text \<open>The \<open>catch\<close> clause drops the exception (it only logs).\<close>

definition processStreamChunk ::
  "RawEvent \<Rightarrow> SSEStream \<Rightarrow> StreamState \<Rightarrow> SSEStream \<times> StreamState" where
  "processStreamChunk rawEvent stream state =
     (case tryBlock rawEvent stream state of (_, stream', state') \<Rightarrow> (stream', state'))"

fun forAwait :: "RawEvent list \<Rightarrow> SSEStream \<Rightarrow> StreamState \<Rightarrow> SSEStream \<times> StreamState" where
  "forAwait [] stream state = (stream, state)"
| "forAwait (rawEvent # response) stream state =
     (case processStreamChunk rawEvent stream state of
        (stream', state') \<Rightarrow> forAwait response stream' state')"

text \<open>
  The streaming branch of \<open>handleResponses\<close>: the callback given to \<open>streamSSE\<close>, run on
  the finite sequence of raw events the backend delivered. \<open>t0\<close>, \<open>t1\<close> and \<open>t2\<close> are the
  three readings of the clock (state creation, created event, done event).
\<close>

definition handleResponses :: "string \<Rightarrow> nat \<Rightarrow> nat \<Rightarrow> nat \<Rightarrow> RawEvent list \<Rightarrow> SSEStream" where
  "handleResponses model t0 t1 t2 response =
     (let streamState = createStreamState model t0;
          stream1 = sendCreatedEvent [] streamState t1;
          (stream2, streamState2) = forAwait response stream1 streamState
      in sendDoneEvent stream2 streamState2 t2)"

section \<open>Notions used to state the properties\<close>

subsection \<open>Request normalisation\<close>

text \<open>
  A text-bearing part: one of the two text kinds, with a text that is present and not
  empty. Every other part (an image, a text kind without text) is a non-text part.
\<close>

definition bearsText :: "ResponsesContentPart \<Rightarrow> bool" where
  "bearsText p \<longleftrightarrow>
     part_type p \<in> {''input_text'', ''output_text''}
     \<and> (case part_text p of Some t \<Rightarrow> t \<noteq> [] | None \<Rightarrow> False)"

text \<open>The text values of the text-bearing parts of a content-part array, in source order.\<close>

definition textValues :: "ResponsesContentPart list \<Rightarrow> string list" where
  "textValues ps =
     concat (map (\<lambda>p. if bearsText p
                       then (case part_text p of Some t \<Rightarrow> [t] | None \<Rightarrow> [])
                       else []) ps)"

text \<open>
  The shapes of a request's \<open>tool_choice\<close> that are neither a non-empty string nor a
  function object with a non-empty name.
\<close>

fun otherShape :: "RequestToolChoice option \<Rightarrow> bool" where
  "otherShape None = True"
| "otherShape (Some (ChoiceString s)) = (s = [])"
| "otherShape (Some (ChoiceObject ty None)) = True"
| "otherShape (Some (ChoiceObject ty (Some f))) =
     (ty \<noteq> ''function'' \<or> tcf_name f = None \<or> tcf_name f = Some [])"

subsection \<open>Response projection\<close>

text \<open>What one canonical content part contributes to the extracted text.\<close>

definition partText :: "ContentPart \<Rightarrow> string" where
  "partText p =
     (if cp_type p = ''text'' then (case cp_text p of Some t \<Rightarrow> t | None \<Rightarrow> []) else [])"

subsection \<open>Streams of events\<close>

text \<open>The two chunks of the text scenario, each with the id the backend gave it.\<close>

definition helloChunk :: "string option \<Rightarrow> RawEvent" where
  "helloChunk cid =
     Parsed \<lparr> chunk_id = cid,
              chunk_choices =
                Some [\<lparr> choice_delta = Some \<lparr> delta_content = Some ''Hello'',
                                              delta_tool_calls = None \<rparr>,
                        choice_finish_reason = None \<rparr>] \<rparr>"

definition worldChunk :: "string option \<Rightarrow> RawEvent" where
  "worldChunk cid =
     Parsed \<lparr> chunk_id = cid,
              chunk_choices =
                Some [\<lparr> choice_delta = Some \<lparr> delta_content = Some '' world'',
                                              delta_tool_calls = None \<rparr>,
                        choice_finish_reason = Some ''stop'' \<rparr>] \<rparr>"

text \<open>
  A chunk whose single choice carries the given tool-call fragments and nothing else.
\<close>

definition fragmentsChunk :: "ToolCallDelta list \<Rightarrow> RawEvent" where
  "fragmentsChunk tcs =
     Parsed \<lparr> chunk_id = None,
              chunk_choices =
                Some [\<lparr> choice_delta = Some \<lparr> delta_content = None,
                                              delta_tool_calls = Some (map Some tcs) \<rparr>,
                        choice_finish_reason = None \<rparr>] \<rparr>"

definition isStart :: "SSEMessage \<Rightarrow> bool" where
  "isStart m \<longleftrightarrow> sse_event m = ''response.function_call_arguments.start''"

definition isArgsDelta :: "SSEMessage \<Rightarrow> bool" where
  "isArgsDelta m \<longleftrightarrow> sse_event m = ''response.function_call_arguments.delta''"

definition isCallEvent :: "SSEMessage \<Rightarrow> bool" where
  "isCallEvent m \<longleftrightarrow> isStart m \<or> isArgsDelta m"

text \<open>The call id and the name a function-call start event carries.\<close>

definition startedCall :: "SSEMessage \<Rightarrow> string option \<times> string option" where
  "startedCall m =
     (case ev_item (sse_data m) of
        Some item \<Rightarrow> (out_call_id item, out_name item)
      | None \<Rightarrow> (None, None))"

text \<open>The name and the arguments a fragment carries, when they are present and not empty.\<close>

definition fragmentName :: "ToolCallDelta \<Rightarrow> string option" where
  "fragmentName tc =
     (case tc_function tc of
        None \<Rightarrow> None
      | Some f \<Rightarrow>
          (case fn_name f of
             None \<Rightarrow> None
           | Some n \<Rightarrow> if n = [] then None else Some n))"

definition fragmentArguments :: "ToolCallDelta \<Rightarrow> string option" where
  "fragmentArguments tc =
     (case tc_function tc of
        None \<Rightarrow> None
      | Some f \<Rightarrow>
          (case fn_arguments f of
             None \<Rightarrow> None
           | Some a \<Rightarrow> if a = [] then None else Some a))"

text \<open>
  The function-call start event for a call id and a name, and the argument-delta event
  for an increment of the arguments, at an output index.
\<close>

definition startEvent :: "nat \<Rightarrow> string option \<Rightarrow> string \<Rightarrow> SSEMessage" where
  "startEvent k cid name =
     \<lparr> sse_event = ''response.function_call_arguments.start'',
       sse_data =
         \<lparr> ev_type = ''response.function_call_arguments.start'',
           ev_delta = None,
           ev_item =
             Some \<lparr> out_id = ''fc_'' @ (case cid of Some i \<Rightarrow> i | None \<Rightarrow> ''undefined''),
                    out_type = ''function_call'',
                    out_role = None,
                    out_status = Some ''in_progress'',
                    out_content = None,
                    out_name = Some name,
                    out_arguments = None,
                    out_call_id = cid \<rparr>,
           ev_output_index = Some k,
           ev_content_index = None,
           ev_response = None \<rparr> \<rparr>"

definition argumentsDeltaEvent :: "nat \<Rightarrow> string \<Rightarrow> SSEMessage" where
  "argumentsDeltaEvent k args =
     \<lparr> sse_event = ''response.function_call_arguments.delta'',
       sse_data =
         \<lparr> ev_type = ''response.function_call_arguments.delta'',
           ev_delta = Some args,
           ev_item = None,
           ev_output_index = Some k,
           ev_content_index = None,
           ev_response = None \<rparr> \<rparr>"

text \<open>
  The events one tool-call fragment gives rise to: a start event when it carries a name,
  then an argument-delta event when it carries arguments. The index of the fragment plays
  no part.
\<close>

definition fragmentEvents :: "nat \<Rightarrow> ToolCallDelta \<Rightarrow> SSEStream" where
  "fragmentEvents k tc =
     (case fragmentName tc of Some n \<Rightarrow> [startEvent k (tc_id tc) n] | None \<Rightarrow> [])
     @ (case fragmentArguments tc of Some a \<Rightarrow> [argumentsDeltaEvent k a] | None \<Rightarrow> [])"

text \<open>
  A record that can be decoded as a valid chunk: it parses, has its \<open>choices\<close>, every
  choice has its \<open>delta\<close>, and no element of a \<open>tool_calls\<close> is \<open>null\<close>.
\<close>

definition validChoice :: "ChunkChoice \<Rightarrow> bool" where
  "validChoice c =
     (case choice_delta c of
        None \<Rightarrow> False
      | Some d \<Rightarrow>
          (case delta_tool_calls d of
             None \<Rightarrow> True
           | Some fs \<Rightarrow> list_all (\<lambda>f. f \<noteq> None) fs))"

fun validChunk :: "RawEvent \<Rightarrow> bool" where
  "validChunk Unparseable = False"
| "validChunk (Parsed chunk) =
     (case chunk_choices chunk of
        None \<Rightarrow> False
      | Some cs \<Rightarrow> list_all validChoice cs)"

text \<open>The fragments that are present in a list of \<open>tool_calls\<close> elements, in order.\<close>

definition presentFragments :: "ToolCallDelta option list \<Rightarrow> ToolCallDelta list" where
  "presentFragments fs = concat (map (\<lambda>f. case f of Some tc \<Rightarrow> [tc] | None \<Rightarrow> []) fs)"

text \<open>The tool-call fragments of a choice and of a record, in order.\<close>

definition fragmentsOfChoice :: "ChunkChoice \<Rightarrow> ToolCallDelta list" where
  "fragmentsOfChoice c =
     (case choice_delta c of
        None \<Rightarrow> []
      | Some d \<Rightarrow>
          (case delta_tool_calls d of
             None \<Rightarrow> []
           | Some fs \<Rightarrow> presentFragments fs))"

fun fragmentsOf :: "RawEvent \<Rightarrow> ToolCallDelta list" where
  "fragmentsOf Unparseable = []"
| "fragmentsOf (Parsed chunk) =
     (case chunk_choices chunk of
        None \<Rightarrow> []
      | Some cs \<Rightarrow> concat (map fragmentsOfChoice cs))"

text \<open>
  The choices of a record up to the point where processing fails: the choices before the
  first one that is not valid and, when that one has its \<open>delta\<close>, its text and its
  fragments before the first \<open>null\<close>, without its finish reason.
\<close>

fun cutChoices :: "ChunkChoice list \<Rightarrow> ChunkChoice list" where
  "cutChoices [] = []"
| "cutChoices (c # cs) =
     (case choice_delta c of
        None \<Rightarrow> []
      | Some d \<Rightarrow>
          (case delta_tool_calls d of
             None \<Rightarrow> c # cutChoices cs
           | Some fs \<Rightarrow>
               (if list_all (\<lambda>f. f \<noteq> None) fs then c # cutChoices cs
                else [\<lparr> choice_delta =
                          Some \<lparr> delta_content = delta_content d,
                                 delta_tool_calls = Some (takeWhile (\<lambda>f. f \<noteq> None) fs) \<rparr>,
                        choice_finish_reason = None \<rparr>])))"

text \<open>
  The valid prefix of a parsed record: the same id, and its choices cut at the point of
  failure (none when the record has no \<open>choices\<close>).
\<close>

definition validPrefix :: "ChatCompletionChunk \<Rightarrow> ChatCompletionChunk" where
  "validPrefix chunk =
     \<lparr> chunk_id = chunk_id chunk,
       chunk_choices =
         Some (case chunk_choices chunk of None \<Rightarrow> [] | Some cs \<Rightarrow> cutChoices cs) \<rparr>"

text \<open>
  What a choice with delta \<open>d\<close> does in state \<open>state\<close>, part by part: the state after its
  text, its text-delta event, the fragments it reaches, and its text-done event.
\<close>

definition afterText :: "StreamState \<Rightarrow> Delta \<Rightarrow> StreamState" where
  "afterText state d =
     (if truthy (delta_content d)
      then state\<lparr>outputText := outputText state @ toString (delta_content d)\<rparr>
      else state)"

definition textEvents :: "StreamState \<Rightarrow> Delta \<Rightarrow> SSEStream" where
  "textEvents state d =
     (if truthy (delta_content d)
      then sendTextDeltaEvent [] (toString (delta_content d)) (outputIndex state)
      else [])"

definition noNull :: "Delta \<Rightarrow> bool" where
  "noNull d =
     (case delta_tool_calls d of
        None \<Rightarrow> True
      | Some fs \<Rightarrow> list_all (\<lambda>f. f \<noteq> None) fs)"

definition reachedFragments :: "Delta \<Rightarrow> ToolCallDelta list" where
  "reachedFragments d =
     (case delta_tool_calls d of
        None \<Rightarrow> []
      | Some fs \<Rightarrow> presentFragments (takeWhile (\<lambda>f. f \<noteq> None) fs))"

definition doneEvents :: "StreamState \<Rightarrow> ChunkChoice \<Rightarrow> Delta \<Rightarrow> SSEStream" where
  "doneEvents state c d =
     (if noNull d \<and> truthy (choice_finish_reason c) \<and> outputText (afterText state d) \<noteq> []
      then sendTextDoneEvent [] (outputIndex state)
      else [])"

definition isTextDelta :: "SSEMessage \<Rightarrow> nat \<Rightarrow> bool" where
  "isTextDelta m slot \<longleftrightarrow>
     sse_event m = ''response.output_text.delta'' \<and> ev_output_index (sse_data m) = Some slot"

definition isTextDone :: "SSEMessage \<Rightarrow> nat \<Rightarrow> bool" where
  "isTextDone m slot \<longleftrightarrow>
     sse_event m = ''response.output_text.done'' \<and> ev_output_index (sse_data m) = Some slot"

text \<open>Every text-done event of a slot has a text-delta event of that slot before it.\<close>

definition doneFollowsDelta :: "SSEStream \<Rightarrow> bool" where
  "doneFollowsDelta evs \<longleftrightarrow>
     (\<forall>i<length evs. \<forall>slot.
        isTextDone (evs ! i) slot \<longrightarrow> (\<exists>j<i. isTextDelta (evs ! j) slot))"

text \<open>
  The invariant of the loop over the raw events: the stream written so far is ordered,
  holds no terminal event, and holds a text delta of the current slot once text has been
  accumulated.
\<close>

definition streamInv :: "SSEStream \<Rightarrow> StreamState \<Rightarrow> bool" where
  "streamInv stream state \<longleftrightarrow>
     doneFollowsDelta stream
     \<and> (\<forall>m \<in> set stream. sse_event m \<noteq> ''response.done'')
     \<and> (outputText state \<noteq> [] \<longrightarrow> (\<exists>m \<in> set stream. isTextDelta m (outputIndex state)))"

text \<open>The text of the text-delta events of a stream, concatenated in order.\<close>

definition textDeltas :: "SSEStream \<Rightarrow> string" where
  "textDeltas evs =
     concat (map (\<lambda>m. if sse_event m = ''response.output_text.delta''
                       then (case ev_delta (sse_data m) of Some d \<Rightarrow> d | None \<Rightarrow> [])
                       else []) evs)"

text \<open>
  A step from \<open>(stream, state)\<close> to \<open>after\<close> only appends events, and appends to the
  accumulated text exactly the text of the text-delta events it wrote.
\<close>

definition extends :: "SSEStream \<Rightarrow> StreamState \<Rightarrow> SSEStream \<times> StreamState \<Rightarrow> bool" where
  "extends stream state after \<longleftrightarrow>
     (\<exists>evs. fst after = stream @ evs
          \<and> outputText (snd after) = outputText state @ textDeltas evs)"

text \<open>
  A step from \<open>(stream, state)\<close> to \<open>after\<close> only appends events, keeps the output index,
  and the function-call events it appends are exactly those of the fragments \<open>tcs\<close>, in
  order.
\<close>

definition callExtends ::
  "SSEStream \<Rightarrow> StreamState \<Rightarrow> ToolCallDelta list \<Rightarrow> SSEStream \<times> StreamState \<Rightarrow> bool" where
  "callExtends stream state tcs after \<longleftrightarrow>
     (\<exists>evs. fst after = stream @ evs
          \<and> filter isCallEvent evs = concat (map (fragmentEvents (outputIndex state)) tcs)
          \<and> outputIndex (snd after) = outputIndex state)"

text \<open>
  A record that parses but is no valid chunk: its first choice is well-formed, its second
  has no \<open>delta\<close>.
\<close>

definition halfValidChunk :: RawEvent where
  "halfValidChunk =
     Parsed \<lparr> chunk_id = Some ''chatcmpl-1'',
              chunk_choices =
                Some [\<lparr> choice_delta = Some \<lparr> delta_content = Some ''Hi'',
                                              delta_tool_calls = None \<rparr>,
                        choice_finish_reason = None \<rparr>,
                      \<lparr> choice_delta = None, choice_finish_reason = None \<rparr>] \<rparr>"

text \<open>
  A record whose first choice carries text, a named fragment, a \<open>null\<close> fragment, a
  further fragment and a finish reason, and whose second choice carries text.
\<close>

definition nullFragmentChunk :: RawEvent where
  "nullFragmentChunk =
     Parsed \<lparr> chunk_id = Some ''chatcmpl-2'',
              chunk_choices =
                Some [\<lparr> choice_delta =
                          Some \<lparr> delta_content = Some ''Hi'',
                                 delta_tool_calls =
                                   Some [Some \<lparr> tc_index = 0, tc_id = Some ''c1'',
                                                tc_function = Some \<lparr> fn_name = Some ''get_weather'',
                                                                      fn_arguments = None \<rparr> \<rparr>,
                                         None,
                                         Some \<lparr> tc_index = 0, tc_id = None,
                                                tc_function = Some \<lparr> fn_name = None,
                                                                      fn_arguments = Some ''{}'' \<rparr> \<rparr>] \<rparr>,
                        choice_finish_reason = Some ''stop'' \<rparr>,
                      \<lparr> choice_delta = Some \<lparr> delta_content = Some ''!'',
                                              delta_tool_calls = None \<rparr>,
                        choice_finish_reason = None \<rparr>] \<rparr>"

section \<open>Request normalisation: properties\<close>

lemma truthy_iff: "truthy x \<longleftrightarrow> x \<noteq> None \<and> x \<noteq> Some []"
  by (cases x) simp_all

lemma textBearing_bearsText: "textBearing p \<longleftrightarrow> bearsText p"
  by (cases "part_text p") (auto simp: textBearing_def bearsText_def)

lemma textValues_filter:
  "map (\<lambda>part. joinElement (part_text part)) (filter textBearing ps) = textValues ps"
  by (induction ps) (auto simp: textValues_def textBearing_bearsText bearsText_def split: option.splits)

lemma textValues_append: "textValues (xs @ ys) = textValues xs @ textValues ys"
  by (simp add: textValues_def)

lemma textValues_nontext: "\<not> bearsText q \<Longrightarrow> textValues (q # ys) = textValues ys"
  by (simp add: textValues_def)

lemma length_textValues: "length (textValues ps) = length (filter bearsText ps)"
  by (induction ps) (auto simp: textValues_def bearsText_def split: option.splits)

lemma translateContent_parts:
  "translateContent (Some (ContentParts ps)) =
     (if textValues ps = [] then None else Some (join [CHR 0x0A] (textValues ps)))"
  by (simp add: textValues_filter Let_def)

text \<open>
  Claim C5, as amended. A tool-result item, that is an item of type \<open>tool_result\<close> that
  carries a non-empty \<open>tool_call_id\<close>, becomes a message of role tool that carries that
  \<open>tool_call_id\<close>, whatever role the item declares. Its content is the item's \<open>output\<close>
  when that is present, otherwise the item's content when that is a string, otherwise the
  empty string; the content is not required to be non-empty.
\<close>

theorem tool_result_message:
  assumes "item_type item = Some ''tool_result''"
    and "truthy (item_tool_call_id item)"
  shows "translateInputItem item =
           Some \<lparr> msg_role = Tool,
                  msg_content = Some (MsgString
                    (case item_output item of
                       Some out \<Rightarrow> out
                     | None \<Rightarrow>
                         (case item_content item of
                            Some (ContentString s) \<Rightarrow> s
                          | _ \<Rightarrow> []))),
                  msg_tool_call_id = item_tool_call_id item,
                  msg_tool_calls = None \<rparr>
         \<and> translateInputItem (item\<lparr>item_role := r\<rparr>) = translateInputItem item"
  using assms by (auto simp: translateInputItem_def split: option.splits)

text \<open>
  The tool-result item of the test suite (declared role user, output
  \<open>Weather is sunny\<close>), and the same item declared by the assistant.
\<close>

theorem tool_result_message_witness:
  "translateInputItem
     \<lparr> item_role = UserRole, item_content = Some (ContentString ''Get weather''),
       item_type = Some ''tool_result'', item_tool_call_id = Some ''call_123'',
       item_output = Some ''Weather is sunny'' \<rparr>
   = Some \<lparr> msg_role = Tool, msg_content = Some (MsgString ''Weather is sunny''),
            msg_tool_call_id = Some ''call_123'', msg_tool_calls = None \<rparr>
   \<and> translateInputItem
     \<lparr> item_role = AssistantRole, item_content = Some (ContentString ''Get weather''),
       item_type = Some ''tool_result'', item_tool_call_id = Some ''call_123'',
       item_output = Some ''Weather is sunny'' \<rparr>
   = Some \<lparr> msg_role = Tool, msg_content = Some (MsgString ''Weather is sunny''),
            msg_tool_call_id = Some ''call_123'', msg_tool_calls = None \<rparr>"
  using tool_result_message
    [of "\<lparr> item_role = UserRole, item_content = Some (ContentString ''Get weather''),
          item_type = Some ''tool_result'', item_tool_call_id = Some ''call_123'',
          item_output = Some ''Weather is sunny'' \<rparr>" AssistantRole]
  by simp

text \<open>
  Claim C5 as stated fails: a tool-result item whose tool returned the empty output is
  turned into a tool message with empty content.
\<close>

theorem tool_result_empty_content_counterexample:
  "translateInputItem
     \<lparr> item_role = UserRole, item_content = Some (ContentString ''Get weather''),
       item_type = Some ''tool_result'', item_tool_call_id = Some ''call_123'',
       item_output = Some [] \<rparr>
   = Some \<lparr> msg_role = Tool, msg_content = Some (MsgString []),
            msg_tool_call_id = Some ''call_123'', msg_tool_calls = None \<rparr>"
  by (simp add: translateInputItem_def)

text \<open>
  Claim C6, as amended. The canonical \<open>tool_choice\<close> of a request is: for a string value,
  that string unchanged whenever it is not empty, whether or not it is one of the three
  recognised literals; for an object of type \<open>function\<close> with a non-empty function name,
  the pinned-function directive with that name; and unset for exactly the other shapes
  (absent, the empty string, an object of another type, a function object without a name
  or with an empty one).
\<close>

theorem tool_choice_mapping:
  "(s \<noteq> [] \<longrightarrow>
      chat_tool_choice (translateResponsesToChat (request\<lparr>req_tool_choice := Some (ChoiceString s)\<rparr>))
        = Some (ChoiceLiteral s))
   \<and> (n \<noteq> [] \<longrightarrow>
      chat_tool_choice (translateResponsesToChat
          (request\<lparr>req_tool_choice := Some (ChoiceObject ''function'' (Some \<lparr> tcf_name = Some n \<rparr>))\<rparr>))
        = Some (PinnedFunction n))
   \<and> (chat_tool_choice (translateResponsesToChat request) = None
        \<longleftrightarrow> otherShape (req_tool_choice request))"
proof -
  have "(translateToolChoice tc = None) = otherShape tc" for tc
    by (cases tc rule: otherShape.cases)
       (auto simp: translateToolChoice_def pinnedName_def truthy_iff)
  then show ?thesis
    by (simp add: translateResponsesToChat_def translateToolChoice_def pinnedName_def Let_def)
qed

text \<open>
  The three literals and the pinned function of the test suite; a function object without
  a name leaves the directive unset.
\<close>

theorem tool_choice_mapping_witness:
  "chat_tool_choice (translateResponsesToChat
        \<lparr> req_model = ''gpt-5.2'', req_input = Some (InputString ''Hello''),
          req_instructions = None, req_tools = None,
          req_tool_choice = Some (ChoiceString ''auto''),
          req_max_output_tokens = None, req_temperature = None, req_top_p = None,
          req_stream = None \<rparr>) = Some (ChoiceLiteral ''auto'')
   \<and> chat_tool_choice (translateResponsesToChat
        \<lparr> req_model = ''gpt-5.2'', req_input = Some (InputString ''Hello''),
          req_instructions = None, req_tools = None,
          req_tool_choice = Some (ChoiceObject ''function'' (Some \<lparr> tcf_name = Some ''get_weather'' \<rparr>)),
          req_max_output_tokens = None, req_temperature = None, req_top_p = None,
          req_stream = None \<rparr>) = Some (PinnedFunction ''get_weather'')
   \<and> chat_tool_choice (translateResponsesToChat
        \<lparr> req_model = ''gpt-5.2'', req_input = Some (InputString ''Hello''),
          req_instructions = None, req_tools = None,
          req_tool_choice = Some (ChoiceObject ''function'' None),
          req_max_output_tokens = None, req_temperature = None, req_top_p = None,
          req_stream = None \<rparr>) = None"
  using tool_choice_mapping
    [of "''auto''"
        "\<lparr> req_model = ''gpt-5.2'', req_input = Some (InputString ''Hello''),
          req_instructions = None, req_tools = None,
          req_tool_choice = Some (ChoiceObject ''function'' None),
          req_max_output_tokens = None, req_temperature = None, req_top_p = None,
          req_stream = None \<rparr>"
        "''get_weather''"]
  by simp

text \<open>
  Claim C6 as stated fails: a string that is none of the three recognised literals is
  passed through, where the claim leaves the directive unset.
\<close>

theorem tool_choice_unrecognised_string_counterexample:
  "''foo'' \<notin> {''auto'', ''none'', ''required''}
   \<and> chat_tool_choice (translateResponsesToChat
        \<lparr> req_model = ''gpt-5.2'', req_input = Some (InputString ''Hello''),
          req_instructions = None, req_tools = None,
          req_tool_choice = Some (ChoiceString ''foo''),
          req_max_output_tokens = None, req_temperature = None, req_top_p = None,
          req_stream = None \<rparr>) = Some (ChoiceLiteral ''foo'')"
  by (simp add: translateResponsesToChat_def translateToolChoice_def Let_def)

text \<open>
  Claim C7, as amended. For a content-part array \<open>ps\<close>, the normalised content is the
  text values of its text-bearing parts (the parts of kind \<open>input_text\<close> or \<open>output_text\<close>
  with a non-empty text), as many as there are such parts and in source order, joined with
  a newline, and nothing when there is none; a non-text part can be put in or taken out
  anywhere without changing the result. An item with that content that is not a tool
  result with a \<open>tool_call_id\<close> is dropped exactly when no text-bearing part remains, and
  otherwise carries the joined text. A tool result with a \<open>tool_call_id\<close> does not use its
  content-part array: it is never dropped, and its content is its \<open>output\<close>, or the empty
  string when it has none.
\<close>

theorem content_parts_newline_joined:
  "translateContent (Some (ContentParts ps)) =
     (if textValues ps = [] then None else Some (join [CHR 0x0A] (textValues ps)))
   \<and> length (textValues ps) = length (filter bearsText ps)
   \<and> (\<not> bearsText q \<longrightarrow>
        translateContent (Some (ContentParts (xs @ q # ys)))
          = translateContent (Some (ContentParts (xs @ ys))))
   \<and> (item_content item = Some (ContentParts ps)
        \<and> \<not> (item_type item = Some ''tool_result'' \<and> truthy (item_tool_call_id item)) \<longrightarrow>
        (case translateInputItem item of
           None \<Rightarrow> textValues ps = []
         | Some m \<Rightarrow>
             textValues ps \<noteq> []
             \<and> msg_content m = Some (MsgString (join [CHR 0x0A] (textValues ps)))))
   \<and> (item_content item = Some (ContentParts ps)
        \<and> item_type item = Some ''tool_result'' \<and> truthy (item_tool_call_id item) \<longrightarrow>
        (case translateInputItem item of
           None \<Rightarrow> False
         | Some m \<Rightarrow>
             msg_content m =
               Some (MsgString (case item_output item of Some out \<Rightarrow> out | None \<Rightarrow> []))))"
  by (auto simp: translateContent_parts length_textValues textValues_append textValues_nontext
        translateInputItem_def
      simp del: translateContent.simps split: option.splits)

text \<open>
  Two text parts with an image between them give the two texts on two lines (the content
  of the test suite, with the image added); an item holding only the image is dropped.
\<close>

theorem content_parts_newline_joined_witness:
  "translateContent (Some (ContentParts
      [\<lparr> part_type = ''input_text'', part_text = Some ''First part.'', part_image_url = None \<rparr>,
       \<lparr> part_type = ''input_image'', part_text = None, part_image_url = Some ''u'' \<rparr>,
       \<lparr> part_type = ''input_text'', part_text = Some ''Second part.'', part_image_url = None \<rparr>]))
   = translateContent (Some (ContentParts
      [\<lparr> part_type = ''input_text'', part_text = Some ''First part.'', part_image_url = None \<rparr>,
       \<lparr> part_type = ''input_text'', part_text = Some ''Second part.'', part_image_url = None \<rparr>]))
   \<and> translateContent (Some (ContentParts
      [\<lparr> part_type = ''input_text'', part_text = Some ''First part.'', part_image_url = None \<rparr>,
       \<lparr> part_type = ''input_text'', part_text = Some ''Second part.'', part_image_url = None \<rparr>]))
     = Some (''First part.'' @ [CHR 0x0A] @ ''Second part.'')
   \<and> translateInputItem
        \<lparr> item_role = UserRole,
          item_content = Some (ContentParts
            [\<lparr> part_type = ''input_image'', part_text = None, part_image_url = Some ''u'' \<rparr>]),
          item_type = None, item_tool_call_id = None, item_output = None \<rparr> = None"
  using content_parts_newline_joined
    [of "[\<lparr> part_type = ''input_image'', part_text = None, part_image_url = Some ''u'' \<rparr>]"
        "\<lparr> part_type = ''input_image'', part_text = None, part_image_url = Some ''u'' \<rparr>"
        "[\<lparr> part_type = ''input_text'', part_text = Some ''First part.'', part_image_url = None \<rparr>]"
        "[\<lparr> part_type = ''input_text'', part_text = Some ''Second part.'', part_image_url = None \<rparr>]"
        "\<lparr> item_role = UserRole,
          item_content = Some (ContentParts
            [\<lparr> part_type = ''input_image'', part_text = None, part_image_url = Some ''u'' \<rparr>]),
          item_type = None, item_tool_call_id = None, item_output = None \<rparr>"]
  by (simp add: textBearing_def bearsText_def textValues_def split: option.splits)

text \<open>
  Claim C7 as stated fails on tool results. A tool-result item whose content is an array
  with one text part \<open>sunny\<close> becomes a message with empty content, not \<open>sunny\<close>; and one
  whose array holds only an image is not dropped but becomes a message with empty content.
\<close>

theorem content_parts_tool_result_counterexample:
  "textValues
     [\<lparr> part_type = ''input_text'', part_text = Some ''sunny'', part_image_url = None \<rparr>]
     = [''sunny'']
   \<and> translateInputItem
        \<lparr> item_role = UserRole,
          item_content = Some (ContentParts
            [\<lparr> part_type = ''input_text'', part_text = Some ''sunny'', part_image_url = None \<rparr>]),
          item_type = Some ''tool_result'', item_tool_call_id = Some ''call_123'',
          item_output = None \<rparr>
      = Some \<lparr> msg_role = Tool, msg_content = Some (MsgString []),
               msg_tool_call_id = Some ''call_123'', msg_tool_calls = None \<rparr>
   \<and> textValues
     [\<lparr> part_type = ''input_image'', part_text = None, part_image_url = Some ''u'' \<rparr>] = []
   \<and> translateInputItem
        \<lparr> item_role = UserRole,
          item_content = Some (ContentParts
            [\<lparr> part_type = ''input_image'', part_text = None, part_image_url = Some ''u'' \<rparr>]),
          item_type = Some ''tool_result'', item_tool_call_id = Some ''call_123'',
          item_output = None \<rparr>
      = Some \<lparr> msg_role = Tool, msg_content = Some (MsgString []),
               msg_tool_call_id = Some ''call_123'', msg_tool_calls = None \<rparr>"
  by (simp add: translateInputItem_def textValues_def bearsText_def)

text \<open>
  Claim C10. An item of type \<open>tool_result\<close> whose \<open>tool_call_id\<close> is absent or empty is
  translated as an ordinary message: from its declared role (developer mapped to system)
  and its content, dropped when the content yields no text, exactly as the same item of
  type \<open>message\<close> would be; the result is never a message of role tool.
\<close>

theorem tool_result_without_id_is_message:
  assumes "item_type item = Some ''tool_result''"
    and "\<not> truthy (item_tool_call_id item)"
  shows "translateInputItem item =
           (case translateContent (item_content item) of
              None \<Rightarrow> None
            | Some text \<Rightarrow>
                Some \<lparr> msg_role = (if item_role item = DeveloperRole then System
                                   else sameRole (item_role item)),
                       msg_content = Some (MsgString text),
                       msg_tool_call_id = None,
                       msg_tool_calls = None \<rparr>)
         \<and> translateInputItem item = translateInputItem (item\<lparr>item_type := Some ''message''\<rparr>)
         \<and> (case translateInputItem item of None \<Rightarrow> True | Some m \<Rightarrow> msg_role m \<noteq> Tool)"
  using assms
  by (cases "item_role item") (auto simp: translateInputItem_def split: option.splits)

text \<open>
  A tool-result item without a \<open>tool_call_id\<close> becomes a user message with its own
  content; its \<open>output\<close> is not used.
\<close>

theorem tool_result_without_id_is_message_witness:
  "translateInputItem
     \<lparr> item_role = UserRole, item_content = Some (ContentString ''Get weather''),
       item_type = Some ''tool_result'', item_tool_call_id = None,
       item_output = Some ''Weather is sunny'' \<rparr>
   = Some \<lparr> msg_role = User, msg_content = Some (MsgString ''Get weather''),
            msg_tool_call_id = None, msg_tool_calls = None \<rparr>"
  using tool_result_without_id_is_message
    [of "\<lparr> item_role = UserRole, item_content = Some (ContentString ''Get weather''),
          item_type = Some ''tool_result'', item_tool_call_id = None,
          item_output = Some ''Weather is sunny'' \<rparr>"]
  by simp

section \<open>Response projection: properties\<close>

lemma join_empty_separator: "join [] xs = concat xs"
  by (induction "[] :: string" xs rule: join.induct) simp_all

lemma concat_text_parts:
  "concat (map (\<lambda>p. joinElement (cp_text p)) (filter isTextPart ps)) = concat (map partText ps)"
  by (induction ps) (auto simp: isTextPart_def partText_def)

text \<open>
  Claim C8. A canonical usage with prompt count \<open>p\<close> and completion count \<open>c\<close> is projected
  to input tokens \<open>p\<close>, output tokens \<open>c\<close> and total \<open>p + c\<close>, whatever total \<open>t\<close> the
  backend supplied; an absent usage is projected to an absent usage; and the usage of a
  projected response is the projection of the canonical response's usage.
\<close>

theorem usage_total_is_sum:
  "translateUsage (Some \<lparr> prompt_tokens = p, completion_tokens = c, upstream_total_tokens = t \<rparr>)
     = Some \<lparr> input_tokens = p, output_tokens = c, total_tokens = p + c \<rparr>
   \<and> translateUsage None = None
   \<and> resp_usage (translateChatToResponses response model) = translateUsage (cr_usage response)"
  by (simp add: translateUsage_def translateChatToResponses_def Let_def split: prod.splits)

text \<open>The usage of the test suite, with a backend total that disagrees with the sum.\<close>

theorem usage_total_is_sum_witness:
  "translateUsage (Some \<lparr> prompt_tokens = 10, completion_tokens = 8,
                          upstream_total_tokens = Some 99 \<rparr>)
     = Some \<lparr> input_tokens = 10, output_tokens = 8, total_tokens = 18 \<rparr>"
  using usage_total_is_sum [of 10 8 "Some 99"] by simp

text \<open>
  Claim C9. The text extracted from an array of canonical content parts is the
  concatenation, with nothing between them, of the texts of the parts of type \<open>text\<close>;
  every other part contributes nothing. It is also the flattened output text of a
  projected response whose only choice has such a content.
\<close>

theorem extracted_text_concatenated:
  "extractTextContent (Some (MsgParts ps)) = concat (map partText ps)
   \<and> resp_output_text (translateChatToResponses
        \<lparr> cr_id = rid, cr_created = created, cr_model = model',
          cr_choices = [\<lparr> rc_message = \<lparr> msg_role = Assistant, msg_content = Some (MsgParts ps),
                                         msg_tool_call_id = None, msg_tool_calls = calls \<rparr>,
                           rc_finish_reason = reason \<rparr>],
          cr_usage = usage \<rparr> model) = concat (map partText ps)"
  by (simp add: join_empty_separator concat_text_parts translateChatToResponses_def
        projectChoice_def Let_def split: option.splits)

text \<open>Two text parts around an image: the texts are put together with no separator.\<close>

theorem extracted_text_concatenated_witness:
  "extractTextContent (Some (MsgParts
      [\<lparr> cp_type = ''text'', cp_text = Some ''Hello'', cp_image_url = None \<rparr>,
       \<lparr> cp_type = ''image_url'', cp_text = None, cp_image_url = Some ''u'' \<rparr>,
       \<lparr> cp_type = ''text'', cp_text = Some ''world'', cp_image_url = None \<rparr>])) = ''Helloworld''"
  using extracted_text_concatenated
    [of "[\<lparr> cp_type = ''text'', cp_text = Some ''Hello'', cp_image_url = None \<rparr>,
          \<lparr> cp_type = ''image_url'', cp_text = None, cp_image_url = Some ''u'' \<rparr>,
          \<lparr> cp_type = ''text'', cp_text = Some ''world'', cp_image_url = None \<rparr>]"]
  by (simp add: partText_def)

section \<open>The streaming event sequencer: properties\<close>

subsection \<open>What one choice writes\<close>

lemma truthy_cases: "truthy x \<longleftrightarrow> (case x of Some s \<Rightarrow> s \<noteq> [] | None \<Rightarrow> False)"
  by (cases x) simp_all

lemma fragment_step:
  "(if truthy (functionArguments tc)
    then sendFunctionCallDeltaEvent
           (if truthy (functionName tc) then sendFunctionCallStartEvent stream tc k else stream)
           (toString (functionArguments tc)) k
    else (if truthy (functionName tc) then sendFunctionCallStartEvent stream tc k else stream))
   = stream @ fragmentEvents k tc"
  by (cases "tc_id tc")
     (auto simp: functionName_def functionArguments_def fragmentEvents_def fragmentName_def
        fragmentArguments_def startEvent_def argumentsDeltaEvent_def
        sendFunctionCallStartEvent_def sendFunctionCallDeltaEvent_def writeSSE_def
        split: option.splits)

lemma toolCallsLoop_exact:
  "processToolCallsLoop fs stream k =
     (if list_all (\<lambda>f. f \<noteq> None) fs then None else Some TypeError,
      stream @ concat (map (fragmentEvents k)
                 (presentFragments (takeWhile (\<lambda>f. f \<noteq> None) fs))))"
proof (induction fs arbitrary: stream)
  case Nil
  show ?case by (simp add: presentFragments_def)
next
  case (Cons f fs)
  show ?case
  proof (cases f)
    case None
    then show ?thesis by (simp add: presentFragments_def)
  next
    case (Some tc)
    have "processToolCallsLoop (Some tc # fs) stream k
            = processToolCallsLoop fs (stream @ fragmentEvents k tc) k"
      by (simp add: Let_def fragment_step)
    then show ?thesis
      using Some by (simp add: Cons.IH presentFragments_def)
  qed
qed

lemma presentFragments_map_Some: "presentFragments (map Some tcs) = tcs"
  by (induction tcs) (simp_all add: presentFragments_def)

lemma takeWhile_all: "list_all P xs \<Longrightarrow> takeWhile P xs = xs"
  by (induction xs) simp_all

lemma list_all_map_Some:
  "list_all (\<lambda>f. f \<noteq> None) (map Some tcs)"
  "list_all (\<lambda>f. \<exists>y. f = Some y) (map Some tcs)"
  by (induction tcs) simp_all

lemma takeWhile_map_Some:
  "takeWhile (\<lambda>f. f \<noteq> None) (map Some tcs) = map Some tcs"
  "takeWhile (\<lambda>f. \<exists>y. f = Some y) (map Some tcs) = map Some tcs"
  by (induction tcs) simp_all

lemma outputIndex_afterText: "outputIndex (afterText state d) = outputIndex state"
  by (simp add: afterText_def)

lemma responseId_afterText: "responseId (afterText state d) = responseId state"
  by (simp add: afterText_def)

lemma processChoice_no_delta:
  "choice_delta c = None \<Longrightarrow> processChoice c stream state = (Some TypeError, stream, state)"
  by (simp add: processChoice_def)

lemma processChoice_exact:
  assumes "choice_delta c = Some d"
  shows "processChoice c stream state =
           (if noNull d then None else Some TypeError,
            stream @ textEvents state d
              @ concat (map (fragmentEvents (outputIndex state)) (reachedFragments d))
              @ doneEvents state c d,
            afterText state d)"
proof (cases "delta_tool_calls d")
  case None
  then show ?thesis
    unfolding processChoice_def assms
    by (simp add: Let_def noNull_def reachedFragments_def textEvents_def doneEvents_def
        afterText_def sendTextDeltaEvent_def sendTextDoneEvent_def writeSSE_def)
next
  case (Some fs)
  then show ?thesis
    unfolding processChoice_def assms
    by (simp add: Let_def processToolCalls_def toolCallsLoop_exact noNull_def
        reachedFragments_def textEvents_def doneEvents_def afterText_def
        sendTextDeltaEvent_def sendTextDoneEvent_def writeSSE_def)
qed

lemma processStreamChunk_tryBlock:
  "processStreamChunk raw stream state = snd (tryBlock raw stream state)"
  by (simp add: processStreamChunk_def split: prod.splits)

lemma forAwait_append:
  "forAwait (xs @ ys) stream state =
     (case forAwait xs stream state of (stream', state') \<Rightarrow> forAwait ys stream' state')"
  by (induction xs arbitrary: stream state) (simp_all split: prod.splits)

subsection \<open>The events of tool-call fragments\<close>

lemma starts_of_fragments:
  "map startedCall (filter isStart (concat (map (fragmentEvents k) tcs)))
     = map (\<lambda>tc. (tc_id tc, fragmentName tc)) (filter (\<lambda>tc. fragmentName tc \<noteq> None) tcs)"
  by (induction tcs)
     (auto simp add: fragmentEvents_def startEvent_def argumentsDeltaEvent_def isStart_def
        startedCall_def split: option.splits)

lemma deltas_of_fragments:
  "map (\<lambda>m. ev_delta (sse_data m)) (filter isArgsDelta (concat (map (fragmentEvents k) tcs)))
     = map fragmentArguments (filter (\<lambda>tc. fragmentArguments tc \<noteq> None) tcs)"
  by (induction tcs)
     (auto simp add: fragmentEvents_def startEvent_def argumentsDeltaEvent_def isArgsDelta_def
        split: option.splits)

lemma fragments_are_calls: "filter isCallEvent (concat (map (fragmentEvents k) tcs))
    = concat (map (fragmentEvents k) tcs)"
  by (induction tcs)
     (auto simp add: fragmentEvents_def startEvent_def argumentsDeltaEvent_def isCallEvent_def
        isStart_def isArgsDelta_def split: option.splits)

lemma textEvents_no_calls: "filter isCallEvent (textEvents state d) = []"
  by (simp add: textEvents_def sendTextDeltaEvent_def writeSSE_def isCallEvent_def isStart_def
        isArgsDelta_def)

lemma doneEvents_no_calls: "filter isCallEvent (doneEvents state c d) = []"
  by (simp add: doneEvents_def sendTextDoneEvent_def writeSSE_def isCallEvent_def isStart_def
        isArgsDelta_def)

lemma callExtends_refl: "callExtends stream state [] (stream, state)"
  by (simp add: callExtends_def)

lemma callExtends_trans:
  assumes "callExtends stream state xs (s1, st1)" and "callExtends s1 st1 ys after"
  shows "callExtends stream state (xs @ ys) after"
proof -
  from assms(1) obtain es where es: "s1 = stream @ es"
    "filter isCallEvent es = concat (map (fragmentEvents (outputIndex state)) xs)"
    "outputIndex st1 = outputIndex state"
    by (auto simp: callExtends_def)
  from assms(2) obtain fs where fs: "fst after = s1 @ fs"
    "filter isCallEvent fs = concat (map (fragmentEvents (outputIndex st1)) ys)"
    "outputIndex (snd after) = outputIndex st1"
    by (auto simp: callExtends_def)
  from es fs have "fst after = stream @ (es @ fs)"
    "filter isCallEvent (es @ fs) = concat (map (fragmentEvents (outputIndex state)) (xs @ ys))"
    "outputIndex (snd after) = outputIndex state"
    by simp_all
  then show ?thesis unfolding callExtends_def by blast
qed

lemma callExtends_responseId:
  "callExtends stream (state\<lparr>responseId := r\<rparr>) tcs after = callExtends stream state tcs after"
  by (simp add: callExtends_def)

lemma valid_processChoice:
  assumes "validChoice c"
  shows "fst (processChoice c stream state) = None"
    and "callExtends stream state (fragmentsOfChoice c) (snd (processChoice c stream state))"
proof -
  from assms obtain d where d: "choice_delta c = Some d" and n: "noNull d"
    by (auto simp: validChoice_def noNull_def split: option.splits)
  from n have r: "reachedFragments d = fragmentsOfChoice c"
    by (auto simp: reachedFragments_def fragmentsOfChoice_def d noNull_def takeWhile_all
        split: option.splits)
  show "fst (processChoice c stream state) = None"
    by (simp add: processChoice_exact [OF d] n)
  have "filter isCallEvent
          (textEvents state d
             @ concat (map (fragmentEvents (outputIndex state)) (reachedFragments d))
             @ doneEvents state c d)
        = concat (map (fragmentEvents (outputIndex state)) (fragmentsOfChoice c))"
    by (simp add: textEvents_no_calls doneEvents_no_calls fragments_are_calls r)
  then show "callExtends stream state (fragmentsOfChoice c) (snd (processChoice c stream state))"
    unfolding callExtends_def processChoice_exact [OF d]
    by (auto simp: outputIndex_afterText)
qed

lemma valid_processChoices:
  "list_all validChoice cs \<Longrightarrow>
     fst (processChoices cs stream state) = None
     \<and> callExtends stream state (concat (map fragmentsOfChoice cs))
         (snd (processChoices cs stream state))"
proof (induction cs arbitrary: stream state)
  case Nil
  show ?case by (simp add: callExtends_refl)
next
  case (Cons c cs)
  obtain e s1 st1 where p: "processChoice c stream state = (e, s1, st1)"
    by (cases "processChoice c stream state")
  from Cons.prems have vc: "validChoice c" and vcs: "list_all validChoice cs" by simp_all
  from valid_processChoice [OF vc, of stream state] p
  have e: "e = None" and c1: "callExtends stream state (fragmentsOfChoice c) (s1, st1)"
    by simp_all
  from Cons.IH [OF vcs, of s1 st1]
  have f: "fst (processChoices cs s1 st1) = None"
    and c2: "callExtends s1 st1 (concat (map fragmentsOfChoice cs))
               (snd (processChoices cs s1 st1))"
    by simp_all
  from callExtends_trans [OF c1 c2] f show ?case by (simp add: p e)
qed

lemma valid_processStreamChunk:
  assumes "validChunk raw"
  shows "callExtends stream state (fragmentsOf raw) (processStreamChunk raw stream state)"
proof -
  from assms obtain chunk cs where r: "raw = Parsed chunk" and cs: "chunk_choices chunk = Some cs"
    and v: "list_all validChoice cs"
    by (cases raw) (auto split: option.splits)
  show ?thesis
    using valid_processChoices [OF v, of stream state]
      valid_processChoices [OF v, of stream "state\<lparr>responseId := toString (chunk_id chunk)\<rparr>"]
    by (simp add: r cs processStreamChunk_tryBlock Let_def callExtends_responseId)
qed

lemma valid_forAwait:
  "list_all validChunk raws \<Longrightarrow>
     callExtends stream state (concat (map fragmentsOf raws)) (forAwait raws stream state)"
proof (induction raws arbitrary: stream state)
  case Nil
  show ?case by (simp add: callExtends_refl)
next
  case (Cons raw raws)
  obtain s1 st1 where p: "processStreamChunk raw stream state = (s1, st1)"
    by (cases "processStreamChunk raw stream state")
  from Cons.prems have v: "validChunk raw" and vs: "list_all validChunk raws" by simp_all
  from valid_processStreamChunk [OF v, of stream state] p
  have c1: "callExtends stream state (fragmentsOf raw) (s1, st1)" by simp
  from callExtends_trans [OF c1 Cons.IH [OF vs, of s1 st1]] show ?case by (simp add: p)
qed

lemma valid_stream_call_events:
  assumes "list_all validChunk raws"
  shows "filter isCallEvent (handleResponses model t0 t1 t2 raws)
           = concat (map (fragmentEvents 0) (concat (map fragmentsOf raws)))"
proof -
  define st0 where "st0 = createStreamState model t0"
  define s0 where "s0 = sendCreatedEvent [] st0 t1"
  obtain s2 st2 where fa: "forAwait raws s0 st0 = (s2, st2)" by (cases "forAwait raws s0 st0")
  from valid_forAwait [OF assms, of s0 st0] fa obtain evs where
    evs: "s2 = s0 @ evs"
      "filter isCallEvent evs
         = concat (map (fragmentEvents (outputIndex st0)) (concat (map fragmentsOf raws)))"
    by (auto simp: callExtends_def)
  have h: "handleResponses model t0 t1 t2 raws = sendDoneEvent s2 st2 t2"
    by (simp add: handleResponses_def Let_def fa st0_def[symmetric] s0_def[symmetric])
  have z: "outputIndex st0 = 0" by (simp add: st0_def createStreamState_def)
  have c: "filter isCallEvent s0 = []"
    by (simp add: s0_def sendCreatedEvent_def writeSSE_def isCallEvent_def isStart_def
        isArgsDelta_def)
  show ?thesis
    unfolding h using evs c z
    by (simp add: sendDoneEvent_def writeSSE_def isCallEvent_def isStart_def isArgsDelta_def)
qed

lemma fragmentsChunk_step:
  "processStreamChunk (fragmentsChunk tcs) stream state
     = (stream @ concat (map (fragmentEvents (outputIndex state)) tcs), state)"
proof -
  define d where "d = \<lparr> delta_content = None, delta_tool_calls = Some (map Some tcs) \<rparr>"
  define c where "c = \<lparr> choice_delta = Some d, choice_finish_reason = None \<rparr>"
  have cd: "choice_delta c = Some d" by (simp add: c_def)
  have "processChoice c stream state
          = (None, stream @ concat (map (fragmentEvents (outputIndex state)) tcs), state)"
    unfolding processChoice_exact [OF cd]
    by (simp add: d_def c_def noNull_def list_all_map_Some reachedFragments_def
        takeWhile_map_Some presentFragments_map_Some textEvents_def doneEvents_def
        afterText_def)
  then show ?thesis
    by (simp add: fragmentsChunk_def processStreamChunk_tryBlock Let_def c_def d_def)
qed

lemma fragmentsChunks_forAwait:
  "forAwait (map fragmentsChunk tcss) stream state
     = (stream @ concat (map (fragmentEvents (outputIndex state)) (concat tcss)), state)"
  by (induction tcss arbitrary: stream) (simp_all add: fragmentsChunk_step)

lemma fragmentsChunks_stream:
  "handleResponses model t0 t1 t2 (map fragmentsChunk tcss)
     = sendCreatedEvent [] (createStreamState model t0) t1
       @ concat (map (fragmentEvents 0) (concat tcss))
       @ sendDoneEvent [] (createStreamState model t0) t2"
  by (simp add: handleResponses_def Let_def fragmentsChunks_forAwait)
     (simp add: sendDoneEvent_def writeSSE_def createStreamState_def)

text \<open>
  Claim C2, as amended. For every list of tool-call fragments and whatever their indices
  (no record of the indices already seen is kept), the events written are, fragment by
  fragment and in this order, a function-call start event when the fragment carries a
  non-empty function name, with the fragment's id and that name, and then an
  argument-delta event when the fragment carries non-empty arguments, with those
  arguments. This holds for one \<open>tool_calls\<close> array after any stream, for a stream of
  chunks of fragments however the fragments are grouped into chunks, and, restricted to
  the function-call events, for every stream of valid chunks whatever else they carry. So
  there is one start event for each fragment with a name and one argument-delta event for
  each fragment with arguments. In particular the fragments
  \<open>{index:0,id:"c1",name:"get_weather"}\<close>, \<open>{index:0,arguments:'{"loc":'}\<close> and
  \<open>{index:0,arguments:'"NYC"}'}\<close>, streamed one per chunk, yield between the created and
  the terminal event exactly one start event (id \<open>c1\<close>, name \<open>get_weather\<close>) and two
  argument-delta events whose concatenation is \<open>{"loc":"NYC"}\<close>.
\<close>

theorem tool_call_fragment_events:
  \<open>processToolCalls (Some (map Some tcs)) stream k
      = (None, stream @ concat (map (fragmentEvents k) tcs))
   \<and> handleResponses model t0 t1 t2 (map fragmentsChunk tcss)
      = sendCreatedEvent [] (createStreamState model t0) t1
        @ concat (map (fragmentEvents 0) (concat tcss))
        @ sendDoneEvent [] (createStreamState model t0) t2
   \<and> (list_all validChunk raws \<longrightarrow>
        filter isCallEvent (handleResponses model t0 t1 t2 raws)
          = concat (map (fragmentEvents 0) (concat (map fragmentsOf raws))))
   \<and> map startedCall (filter isStart (snd (processToolCalls (Some (map Some tcs)) [] k)))
      = map (\<lambda>tc. (tc_id tc, fragmentName tc)) (filter (\<lambda>tc. fragmentName tc \<noteq> None) tcs)
   \<and> map (\<lambda>m. ev_delta (sse_data m))
        (filter isArgsDelta (snd (processToolCalls (Some (map Some tcs)) [] k)))
      = map fragmentArguments (filter (\<lambda>tc. fragmentArguments tc \<noteq> None) tcs)
   \<and> (let evs = handleResponses model t0 t1 t2
          [fragmentsChunk [\<lparr> tc_index = 0, tc_id = Some ''c1'',
                             tc_function = Some \<lparr> fn_name = Some ''get_weather'',
                                                   fn_arguments = None \<rparr> \<rparr>],
           fragmentsChunk [\<lparr> tc_index = 0, tc_id = None,
                             tc_function = Some \<lparr> fn_name = None,
                                                   fn_arguments = Some ''{"loc":'' \<rparr> \<rparr>],
           fragmentsChunk [\<lparr> tc_index = 0, tc_id = None,
                             tc_function = Some \<lparr> fn_name = None,
                                                   fn_arguments = Some ''"NYC"}'' \<rparr> \<rparr>]]
       in map sse_event evs =
            [''response.created'', ''response.function_call_arguments.start'',
             ''response.function_call_arguments.delta'',
             ''response.function_call_arguments.delta'', ''response.done'']
          \<and> map startedCall (filter isStart evs) = [(Some ''c1'', Some ''get_weather'')]
          \<and> map (\<lambda>m. ev_delta (sse_data m)) (filter isArgsDelta evs)
              = [Some ''{"loc":'', Some ''"NYC"}'']
          \<and> concat (map (\<lambda>m. toString (ev_delta (sse_data m))) (filter isArgsDelta evs))
              = ''{"loc":"NYC"}'')\<close>
proof -
  have a: "processToolCalls (Some (map Some tcs)) stream k
             = (None, stream @ concat (map (fragmentEvents k) tcs))" for stream
    by (simp add: processToolCalls_def toolCallsLoop_exact list_all_map_Some
        takeWhile_map_Some presentFragments_map_Some)
  have scenario: \<open>handleResponses model t0 t1 t2
          [fragmentsChunk [\<lparr> tc_index = 0, tc_id = Some ''c1'',
                             tc_function = Some \<lparr> fn_name = Some ''get_weather'',
                                                   fn_arguments = None \<rparr> \<rparr>],
           fragmentsChunk [\<lparr> tc_index = 0, tc_id = None,
                             tc_function = Some \<lparr> fn_name = None,
                                                   fn_arguments = Some ''{"loc":'' \<rparr> \<rparr>],
           fragmentsChunk [\<lparr> tc_index = 0, tc_id = None,
                             tc_function = Some \<lparr> fn_name = None,
                                                   fn_arguments = Some ''"NYC"}'' \<rparr> \<rparr>]]
      = sendCreatedEvent [] (createStreamState model t0) t1
        @ [startEvent 0 (Some ''c1'') ''get_weather'',
           argumentsDeltaEvent 0 ''{"loc":'', argumentsDeltaEvent 0 ''"NYC"}'']
        @ sendDoneEvent [] (createStreamState model t0) t2\<close>
    using fragmentsChunks_stream
      [of model t0 t1 t2
        \<open>[[\<lparr> tc_index = 0, tc_id = Some ''c1'',
              tc_function = Some \<lparr> fn_name = Some ''get_weather'', fn_arguments = None \<rparr> \<rparr>],
          [\<lparr> tc_index = 0, tc_id = None,
              tc_function = Some \<lparr> fn_name = None, fn_arguments = Some ''{"loc":'' \<rparr> \<rparr>],
          [\<lparr> tc_index = 0, tc_id = None,
              tc_function = Some \<lparr> fn_name = None, fn_arguments = Some ''"NYC"}'' \<rparr> \<rparr>]]\<close>]
    by (simp add: fragmentEvents_def fragmentName_def fragmentArguments_def)
  show ?thesis
    unfolding Let_def scenario a snd_conv
    by (intro conjI impI fragmentsChunks_stream valid_stream_call_events refl)
       (simp_all add: starts_of_fragments deltas_of_fragments sendCreatedEvent_def
          sendDoneEvent_def startEvent_def argumentsDeltaEvent_def writeSSE_def isStart_def
          isArgsDelta_def startedCall_def)
qed

text \<open>
  A call whose name and arguments arrive in one fragment: one start event, then one
  argument-delta event; and the same fragment in a chunk that also carries text.
\<close>

theorem tool_call_fragment_events_witness:
  \<open>processToolCalls (Some
      [Some \<lparr> tc_index = 0, tc_id = Some ''c1'',
          tc_function = Some \<lparr> fn_name = Some ''get_weather'',
                                fn_arguments = Some ''{"loc":"NYC"}'' \<rparr> \<rparr>]) [] 0
     = (None, [startEvent 0 (Some ''c1'') ''get_weather'',
               argumentsDeltaEvent 0 ''{"loc":"NYC"}''])
   \<and> filter isCallEvent (handleResponses ''m'' 0 0 0
        [Parsed \<lparr> chunk_id = None,
                  chunk_choices =
                    Some [\<lparr> choice_delta =
                              Some \<lparr> delta_content = Some ''Hi'',
                                     delta_tool_calls =
                                       Some [Some \<lparr> tc_index = 0, tc_id = Some ''c1'',
                                                tc_function =
                                                  Some \<lparr> fn_name = Some ''get_weather'',
                                                         fn_arguments = Some ''{"loc":"NYC"}'' \<rparr> \<rparr>] \<rparr>,
                            choice_finish_reason = Some ''stop'' \<rparr>] \<rparr>])
     = [startEvent 0 (Some ''c1'') ''get_weather'', argumentsDeltaEvent 0 ''{"loc":"NYC"}'']\<close>
  using tool_call_fragment_events
    [of \<open>[\<lparr> tc_index = 0, tc_id = Some ''c1'',
           tc_function = Some \<lparr> fn_name = Some ''get_weather'',
                                 fn_arguments = Some ''{"loc":"NYC"}'' \<rparr> \<rparr>]\<close> "[]" 0
        "''m''" 0 0 0 "[]"
        \<open>[Parsed \<lparr> chunk_id = None,
                  chunk_choices =
                    Some [\<lparr> choice_delta =
                              Some \<lparr> delta_content = Some ''Hi'',
                                     delta_tool_calls =
                                       Some [Some \<lparr> tc_index = 0, tc_id = Some ''c1'',
                                                tc_function =
                                                  Some \<lparr> fn_name = Some ''get_weather'',
                                                         fn_arguments = Some ''{"loc":"NYC"}'' \<rparr> \<rparr>] \<rparr>,
                            choice_finish_reason = Some ''stop'' \<rparr>] \<rparr>]\<close>]
  by (simp add: validChoice_def fragmentsOfChoice_def presentFragments_def fragmentEvents_def
        fragmentName_def fragmentArguments_def)

text \<open>
  Claim C2 as stated fails. Two fragments of the one index 0 that both carry the name
  yield two start events, and a fragment that introduces index 0 without a name yields
  none.
\<close>

theorem tool_call_start_counterexample:
  \<open>length (remdups (map tc_index
      [\<lparr> tc_index = 0, tc_id = Some ''c1'',
          tc_function = Some \<lparr> fn_name = Some ''get_weather'', fn_arguments = None \<rparr> \<rparr>,
       \<lparr> tc_index = 0, tc_id = Some ''c1'',
          tc_function = Some \<lparr> fn_name = Some ''get_weather'',
                                fn_arguments = Some ''{"loc":"NYC"}'' \<rparr> \<rparr>])) = 1
   \<and> length (filter isStart (snd (processToolCalls (Some
      [Some \<lparr> tc_index = 0, tc_id = Some ''c1'',
          tc_function = Some \<lparr> fn_name = Some ''get_weather'', fn_arguments = None \<rparr> \<rparr>,
       Some \<lparr> tc_index = 0, tc_id = Some ''c1'',
          tc_function = Some \<lparr> fn_name = Some ''get_weather'',
                                fn_arguments = Some ''{"loc":"NYC"}'' \<rparr> \<rparr>]) [] 0))) = 2
   \<and> filter isStart (snd (processToolCalls (Some
      [Some \<lparr> tc_index = 0, tc_id = Some ''c1'',
          tc_function = Some \<lparr> fn_name = None,
                                fn_arguments = Some ''{"loc":"NYC"}'' \<rparr> \<rparr>]) [] 0)) = []\<close>
  by (simp add: processToolCalls_def sendFunctionCallStartEvent_def
        sendFunctionCallDeltaEvent_def functionName_def functionArguments_def writeSSE_def
        Let_def isStart_def)

subsection \<open>The text scenario\<close>

text \<open>
  Claim C1. For the two-chunk input (text \<open>Hello\<close>, then text \<open> world\<close> with a finish
  reason), whatever the requested model, the clock readings and the ids of the chunks, the
  events written are exactly these five, in this order: created, text delta \<open>Hello\<close>, text
  delta \<open> world\<close>, text done, and the terminal done event with output text
  \<open>Hello world\<close>.
\<close>

theorem hello_world_events:
  "handleResponses model t0 t1 t2 [helloChunk id1, worldChunk id2] =
     [ \<lparr> sse_event = ''response.created'',
         sse_data =
           \<lparr> ev_type = ''response.created'', ev_delta = None, ev_item = None,
             ev_output_index = None, ev_content_index = None,
             ev_response =
               Some \<lparr> pr_id = Some (''resp_'' @ decimal t0), pr_object = Some ''response'',
                      pr_created_at = Some (int (t1 div 1000)), pr_model = Some model,
                      pr_output = Some [], pr_output_text = None, pr_usage = None,
                      pr_status = Some ''in_progress'' \<rparr> \<rparr> \<rparr>,
       \<lparr> sse_event = ''response.output_text.delta'',
         sse_data =
           \<lparr> ev_type = ''response.output_text.delta'', ev_delta = Some ''Hello'',
             ev_item = None, ev_output_index = Some 0, ev_content_index = Some 0,
             ev_response = None \<rparr> \<rparr>,
       \<lparr> sse_event = ''response.output_text.delta'',
         sse_data =
           \<lparr> ev_type = ''response.output_text.delta'', ev_delta = Some '' world'',
             ev_item = None, ev_output_index = Some 0, ev_content_index = Some 0,
             ev_response = None \<rparr> \<rparr>,
       \<lparr> sse_event = ''response.output_text.done'',
         sse_data =
           \<lparr> ev_type = ''response.output_text.done'', ev_delta = None, ev_item = None,
             ev_output_index = Some 0, ev_content_index = Some 0, ev_response = None \<rparr> \<rparr>,
       \<lparr> sse_event = ''response.done'',
         sse_data =
           \<lparr> ev_type = ''response.done'', ev_delta = None, ev_item = None,
             ev_output_index = None, ev_content_index = None,
             ev_response =
               Some \<lparr> pr_id = Some (if truthy id2 then toString id2
                                      else if truthy id1 then toString id1
                                      else ''resp_'' @ decimal t0),
                      pr_object = Some ''response'',
                      pr_created_at = Some (int (t2 div 1000)), pr_model = Some model,
                      pr_output = None, pr_output_text = Some ''Hello world'',
                      pr_usage = None, pr_status = Some ''completed'' \<rparr> \<rparr> \<rparr> ]"
  by (simp add: handleResponses_def helloChunk_def worldChunk_def createStreamState_def
      sendCreatedEvent_def sendDoneEvent_def sendTextDeltaEvent_def sendTextDoneEvent_def
      processStreamChunk_def processChoice_def writeSSE_def Let_def)

text \<open>The scenario with both chunks carrying the backend's id.\<close>

theorem hello_world_events_witness:
  "map sse_event
     (handleResponses ''gpt-5.2'' 1700000000123 1700000000124 1700000000999
        [helloChunk (Some ''chatcmpl-1''), worldChunk (Some ''chatcmpl-1'')])
   = [''response.created'', ''response.output_text.delta'', ''response.output_text.delta'',
      ''response.output_text.done'', ''response.done'']
   \<and> map (\<lambda>m. ev_delta (sse_data m))
     (handleResponses ''gpt-5.2'' 1700000000123 1700000000124 1700000000999
        [helloChunk (Some ''chatcmpl-1''), worldChunk (Some ''chatcmpl-1'')])
   = [None, Some ''Hello'', Some '' world'', None, None]"
  using hello_world_events
    [of "''gpt-5.2''" 1700000000123 1700000000124 1700000000999
        "Some ''chatcmpl-1''" "Some ''chatcmpl-1''"]
  by simp

subsection \<open>The order of the events\<close>

lemma doneFollowsDelta_snoc:
  assumes "doneFollowsDelta evs"
    and "\<And>slot. isTextDone m slot \<Longrightarrow> \<exists>e \<in> set evs. isTextDelta e slot"
  shows "doneFollowsDelta (evs @ [m])"
  unfolding doneFollowsDelta_def
proof (intro allI impI)
  fix i slot
  assume i: "i < length (evs @ [m])" and d: "isTextDone ((evs @ [m]) ! i) slot"
  show "\<exists>j<i. isTextDelta ((evs @ [m]) ! j) slot"
  proof (cases "i < length evs")
    case True
    with d have "isTextDone (evs ! i) slot" by (simp add: nth_append)
    with assms(1) True obtain j where "j < i" "isTextDelta (evs ! j) slot"
      unfolding doneFollowsDelta_def by blast
    with True show ?thesis by (auto simp: nth_append intro!: exI[of _ j])
  next
    case False
    with i have ieq: "i = length evs" by simp
    with d have "isTextDone m slot" by simp
    from assms(2)[OF this] obtain e where "e \<in> set evs" "isTextDelta e slot" by blast
    then obtain j where "j < length evs" "evs ! j = e" by (auto simp: in_set_conv_nth)
    with ieq \<open>isTextDelta e slot\<close> show ?thesis by (auto simp: nth_append intro!: exI[of _ j])
  qed
qed

lemma streamInv_snoc_other:
  assumes "streamInv stream state"
    and "sse_event m \<noteq> ''response.done''"
    and "sse_event m \<noteq> ''response.output_text.done''"
  shows "streamInv (stream @ [m]) state"
  using assms unfolding streamInv_def
  by (auto intro!: doneFollowsDelta_snoc simp: isTextDone_def)

lemma streamInv_append_other:
  "streamInv stream state \<Longrightarrow>
   list_all (\<lambda>m. sse_event m \<noteq> ''response.done'' \<and> sse_event m \<noteq> ''response.output_text.done'') evs
   \<Longrightarrow> streamInv (stream @ evs) state"
proof (induction evs arbitrary: stream)
  case Nil
  then show ?case by simp
next
  case (Cons m evs)
  from Cons.prems have "streamInv (stream @ [m]) state"
    by (auto intro: streamInv_snoc_other)
  moreover from Cons.prems have
    "list_all (\<lambda>m. sse_event m \<noteq> ''response.done'' \<and> sse_event m \<noteq> ''response.output_text.done'') evs"
    by simp
  ultimately have "streamInv ((stream @ [m]) @ evs) state" by (rule Cons.IH)
  then show ?case by simp
qed

lemma fragments_other:
  "list_all (\<lambda>m. sse_event m \<noteq> ''response.done'' \<and> sse_event m \<noteq> ''response.output_text.done'')
     (concat (map (fragmentEvents k) tcs))"
  by (induction tcs)
     (auto simp: fragmentEvents_def startEvent_def argumentsDeltaEvent_def split: option.splits)

lemma streamInv_textEvents:
  assumes "streamInv stream state"
  shows "streamInv (stream @ textEvents state d) (afterText state d)"
  using assms unfolding streamInv_def textEvents_def afterText_def sendTextDeltaEvent_def
    writeSSE_def
  by (auto intro!: doneFollowsDelta_snoc simp: isTextDone_def isTextDelta_def)

lemma streamInv_doneEvents:
  assumes "streamInv stream (afterText state d)"
  shows "streamInv (stream @ doneEvents state c d) (afterText state d)"
  using assms unfolding streamInv_def doneEvents_def sendTextDoneEvent_def writeSSE_def
  by (auto intro!: doneFollowsDelta_snoc simp: isTextDone_def outputIndex_afterText)

lemma streamInv_processChoice:
  assumes "streamInv stream state"
    and "processChoice choice stream state = (e, stream', state')"
  shows "streamInv stream' state'"
proof (cases "choice_delta choice")
  case None
  with assms show ?thesis by (simp add: processChoice_no_delta)
next
  case (Some d)
  have "streamInv (stream @ textEvents state d) (afterText state d)"
    using assms(1) by (rule streamInv_textEvents)
  then have "streamInv ((stream @ textEvents state d)
                @ concat (map (fragmentEvents (outputIndex state)) (reachedFragments d)))
              (afterText state d)"
    using fragments_other by (rule streamInv_append_other)
  then have "streamInv (((stream @ textEvents state d)
                @ concat (map (fragmentEvents (outputIndex state)) (reachedFragments d)))
                @ doneEvents state choice d)
              (afterText state d)"
    by (rule streamInv_doneEvents)
  with assms(2) show ?thesis by (simp add: processChoice_exact [OF Some])
qed

lemma streamInv_processChoices:
  "streamInv stream state \<Longrightarrow> processChoices cs stream state = (e, stream', state')
     \<Longrightarrow> streamInv stream' state'"
proof (induction cs arbitrary: stream state)
  case Nil
  then show ?case by simp
next
  case (Cons c cs)
  obtain e1 s1 st1 where p: "processChoice c stream state = (e1, s1, st1)"
    by (cases "processChoice c stream state")
  from Cons.prems(1) p have i1: "streamInv s1 st1" by (rule streamInv_processChoice)
  show ?case
  proof (cases e1)
    case None
    with p Cons.prems(2) have "processChoices cs s1 st1 = (e, stream', state')" by simp
    with i1 show ?thesis by (rule Cons.IH)
  next
    case (Some err)
    with p Cons.prems(2) i1 show ?thesis by simp
  qed
qed

lemma streamInv_responseId: "streamInv stream (state\<lparr>responseId := r\<rparr>) = streamInv stream state"
  by (simp add: streamInv_def)

lemma streamInv_processStreamChunk:
  assumes "streamInv stream state"
    and "processStreamChunk raw stream state = (stream', state')"
  shows "streamInv stream' state'"
proof (cases raw)
  case Unparseable
  with assms show ?thesis by (simp add: processStreamChunk_def)
next
  case (Parsed chunk)
  show ?thesis
  proof (cases "chunk_choices chunk")
    case None
    with Parsed assms show ?thesis
      by (auto simp: processStreamChunk_def Let_def streamInv_responseId split: if_splits)
  next
    case (Some cs)
    define state1 where "state1 =
       (if truthy (chunk_id chunk)
        then state\<lparr>responseId := toString (chunk_id chunk)\<rparr> else state)"
    have i1: "streamInv stream state1"
      using assms(1) by (simp add: state1_def streamInv_responseId)
    obtain e where "processChoices cs stream state1 = (e, stream', state')"
      using assms(2) Parsed Some
      by (cases "processChoices cs stream state1")
         (simp add: processStreamChunk_def Let_def state1_def)
    with i1 show ?thesis by (rule streamInv_processChoices)
  qed
qed

lemma streamInv_forAwait:
  "streamInv stream state \<Longrightarrow> forAwait raws stream state = (stream', state')
     \<Longrightarrow> streamInv stream' state'"
proof (induction raws arbitrary: stream state)
  case Nil
  then show ?case by simp
next
  case (Cons raw raws)
  obtain s1 st1 where p: "processStreamChunk raw stream state = (s1, st1)"
    by (cases "processStreamChunk raw stream state")
  with Cons.prems(1) have "streamInv s1 st1" by (rule streamInv_processStreamChunk)
  moreover from p Cons.prems(2) have "forAwait raws s1 st1 = (stream', state')" by simp
  ultimately show ?case by (rule Cons.IH)
qed

lemma streamInv_created:
  "streamInv (sendCreatedEvent [] (createStreamState model t0) t1) (createStreamState model t0)"
  by (simp add: streamInv_def sendCreatedEvent_def createStreamState_def writeSSE_def
        doneFollowsDelta_def isTextDone_def)

text \<open>
  Claim C3. For every sequence of incoming records, well-formed or not, every text-done
  event of the emitted sequence has a text-delta event for the same slot before it, and
  the terminal done event is the last event of the sequence and occurs nowhere else.
\<close>

theorem event_ordering:
  "doneFollowsDelta (handleResponses model t0 t1 t2 raws)
   \<and> handleResponses model t0 t1 t2 raws \<noteq> []
   \<and> sse_event (last (handleResponses model t0 t1 t2 raws)) = ''response.done''
   \<and> (\<forall>m \<in> set (butlast (handleResponses model t0 t1 t2 raws)).
         sse_event m \<noteq> ''response.done'')"
proof -
  obtain s2 st2 where fa:
    "forAwait raws (sendCreatedEvent [] (createStreamState model t0) t1)
       (createStreamState model t0) = (s2, st2)"
    by (cases "forAwait raws (sendCreatedEvent [] (createStreamState model t0) t1)
                 (createStreamState model t0)")
  have i: "streamInv s2 st2" using streamInv_created fa by (rule streamInv_forAwait)
  have h: "handleResponses model t0 t1 t2 raws = sendDoneEvent s2 st2 t2"
    by (simp add: handleResponses_def Let_def fa)
  have "doneFollowsDelta (sendDoneEvent s2 st2 t2)"
    using i unfolding sendDoneEvent_def writeSSE_def streamInv_def
    by (auto intro!: doneFollowsDelta_snoc simp: isTextDone_def)
  moreover have "\<forall>m \<in> set (butlast (sendDoneEvent s2 st2 t2)). sse_event m \<noteq> ''response.done''"
    using i by (simp add: sendDoneEvent_def writeSSE_def streamInv_def)
  ultimately show ?thesis
    by (simp add: h) (simp add: sendDoneEvent_def writeSSE_def)
qed

text \<open>
  In the text scenario with an unparseable record between the two chunks, the fourth
  event is the text-done event of slot 0, a text-delta event of slot 0 precedes it, and
  the last event is the terminal one.
\<close>

theorem event_ordering_witness:
  "isTextDone (handleResponses ''m'' 0 0 0 [helloChunk None, Unparseable, worldChunk None] ! 3) 0
   \<and> (\<exists>j<3. isTextDelta
         (handleResponses ''m'' 0 0 0 [helloChunk None, Unparseable, worldChunk None] ! j) 0)
   \<and> sse_event (last (handleResponses ''m'' 0 0 0 [helloChunk None, Unparseable, worldChunk None]))
       = ''response.done''"
proof -
  define evs where "evs = handleResponses ''m'' 0 0 0 [helloChunk None, Unparseable, worldChunk None]"
  have ord: "doneFollowsDelta evs" and lst: "sse_event (last evs) = ''response.done''"
    using event_ordering [of "''m''" 0 0 0 "[helloChunk None, Unparseable, worldChunk None]"]
    by (simp_all add: evs_def)
  have len: "3 < length evs" and dn: "isTextDone (evs ! 3) 0"
    by (simp_all add: evs_def handleResponses_def helloChunk_def worldChunk_def
        createStreamState_def sendCreatedEvent_def sendDoneEvent_def sendTextDeltaEvent_def
        sendTextDoneEvent_def processStreamChunk_def processChoice_def writeSSE_def Let_def
        isTextDone_def)
  from ord len dn have "\<exists>j<3. isTextDelta (evs ! j) 0"
    unfolding doneFollowsDelta_def by blast
  with dn lst show ?thesis by (simp add: evs_def)
qed

subsection \<open>Records that are not valid chunks\<close>

lemma textDeltas_append: "textDeltas (xs @ ys) = textDeltas xs @ textDeltas ys"
  by (simp add: textDeltas_def)

lemma textDeltas_Nil: "textDeltas [] = []"
  by (simp add: textDeltas_def)

lemma extends_refl: "extends stream state (stream, state)"
  by (simp add: extends_def textDeltas_def)

lemma extends_trans:
  assumes "extends stream state (s1, st1)" and "extends s1 st1 after"
  shows "extends stream state after"
proof -
  from assms(1) obtain xs where
    xs: "s1 = stream @ xs" "outputText st1 = outputText state @ textDeltas xs"
    by (auto simp: extends_def)
  from assms(2) obtain ys where
    ys: "fst after = s1 @ ys" "outputText (snd after) = outputText st1 @ textDeltas ys"
    by (auto simp: extends_def)
  from xs ys have "fst after = stream @ (xs @ ys)"
    "outputText (snd after) = outputText state @ textDeltas (xs @ ys)"
    by (simp_all add: textDeltas_append)
  then show ?thesis unfolding extends_def by blast
qed

lemma fragment_no_text: "textDeltas (fragmentEvents k tc) = []"
  by (cases "fragmentName tc"; cases "fragmentArguments tc")
     (simp_all add: textDeltas_def fragmentEvents_def startEvent_def argumentsDeltaEvent_def)

lemma fragments_no_text: "textDeltas (concat (map (fragmentEvents k) tcs)) = []"
  by (induction tcs) (simp_all add: textDeltas_Nil textDeltas_append fragment_no_text)

lemma extends_processChoice: "extends stream state (snd (processChoice c stream state))"
proof (cases "choice_delta c")
  case None
  then show ?thesis by (simp add: processChoice_no_delta extends_refl)
next
  case (Some d)
  define evs where "evs = textEvents state d
         @ concat (map (fragmentEvents (outputIndex state)) (reachedFragments d))
         @ doneEvents state c d"
  have t: "textDeltas (textEvents state d) = (if truthy (delta_content d) then toString (delta_content d) else [])"
    by (simp add: textEvents_def sendTextDeltaEvent_def writeSSE_def textDeltas_def)
  have dn: "textDeltas (doneEvents state c d) = []"
    by (simp add: doneEvents_def sendTextDoneEvent_def writeSSE_def textDeltas_def)
  have "textDeltas evs = textDeltas (textEvents state d)"
    by (simp add: evs_def textDeltas_append fragments_no_text dn)
  then have o: "outputText (afterText state d) = outputText state @ textDeltas evs"
    by (simp add: t afterText_def)
  have p: "snd (processChoice c stream state) = (stream @ evs, afterText state d)"
    by (simp add: processChoice_exact [OF Some] evs_def)
  show ?thesis
    unfolding extends_def p using o by (intro exI [of _ evs]) simp
qed

lemma extends_processChoices:
  "extends stream state (snd (processChoices cs stream state))"
proof (induction cs arbitrary: stream state)
  case Nil
  show ?case by (simp add: extends_refl)
next
  case (Cons c cs)
  obtain e1 s1 st1 where p: "processChoice c stream state = (e1, s1, st1)"
    by (cases "processChoice c stream state")
  have e: "extends stream state (s1, st1)"
    using extends_processChoice [of stream state c] p by simp
  show ?case
  proof (cases e1)
    case None
    have "extends s1 st1 (snd (processChoices cs s1 st1))" by (rule Cons.IH)
    with e have "extends stream state (snd (processChoices cs s1 st1))"
      by (rule extends_trans)
    with p None show ?thesis by simp
  next
    case (Some err)
    with p e show ?thesis by simp
  qed
qed

lemma extends_responseId:
  "extends stream (state\<lparr>responseId := r\<rparr>) after = extends stream state after"
  by (simp add: extends_def)

lemma extends_processStreamChunk:
  "extends stream state (processStreamChunk raw stream state)"
proof (cases raw)
  case Unparseable
  then show ?thesis by (simp add: processStreamChunk_tryBlock extends_refl)
next
  case (Parsed chunk)
  show ?thesis
  proof (cases "chunk_choices chunk")
    case None
    with Parsed show ?thesis
      by (simp add: processStreamChunk_tryBlock Let_def extends_def textDeltas_def)
  next
    case (Some cs)
    with Parsed show ?thesis
      using extends_processChoices [of stream state cs]
        extends_processChoices [of stream "state\<lparr>responseId := toString (chunk_id chunk)\<rparr>" cs]
      by (simp add: processStreamChunk_tryBlock Let_def extends_responseId)
  qed
qed

lemma extends_forAwait: "extends stream state (forAwait raws stream state)"
proof (induction raws arbitrary: stream state)
  case Nil
  show ?case by (simp add: extends_refl)
next
  case (Cons raw raws)
  obtain s1 st1 where p: "processStreamChunk raw stream state = (s1, st1)"
    by (cases "processStreamChunk raw stream state")
  have "extends stream state (s1, st1)"
    using extends_processStreamChunk [of stream state raw] p by simp
  moreover have "extends s1 st1 (forAwait raws s1 st1)" by (rule Cons.IH)
  ultimately have "extends stream state (forAwait raws s1 st1)" by (rule extends_trans)
  with p show ?case by simp
qed

lemma final_text_is_textDeltas:
  "map_option pr_output_text (ev_response (sse_data (last (handleResponses model t0 t1 t2 raws))))
     = Some (Some (textDeltas (handleResponses model t0 t1 t2 raws)))"
proof -
  define st0 where "st0 = createStreamState model t0"
  define s0 where "s0 = sendCreatedEvent [] st0 t1"
  obtain s2 st2 where fa: "forAwait raws s0 st0 = (s2, st2)" by (cases "forAwait raws s0 st0")
  from extends_forAwait [of s0 st0 raws] fa obtain evs where
    evs: "s2 = s0 @ evs" "outputText st2 = outputText st0 @ textDeltas evs"
    by (auto simp: extends_def)
  have h: "handleResponses model t0 t1 t2 raws = sendDoneEvent s2 st2 t2"
    by (simp add: handleResponses_def Let_def fa st0_def[symmetric] s0_def[symmetric])
  have "textDeltas s0 = []" "outputText st0 = []"
    by (simp_all add: s0_def st0_def sendCreatedEvent_def createStreamState_def writeSSE_def
        textDeltas_def)
  then have t: "textDeltas (sendDoneEvent s2 st2 t2) = outputText st2"
    by (simp add: evs sendDoneEvent_def writeSSE_def textDeltas_append) (simp add: textDeltas_def)
  show ?thesis
    unfolding h t by (simp add: sendDoneEvent_def writeSSE_def)
qed

lemma validChoice_iff:
  "validChoice c \<longleftrightarrow> (case choice_delta c of None \<Rightarrow> False | Some d \<Rightarrow> noNull d)"
  by (simp add: validChoice_def noNull_def split: option.splits)

lemma processChoices_error:
  "fst (processChoices cs stream state) = None \<longleftrightarrow> list_all validChoice cs"
proof (induction cs arbitrary: stream state)
  case Nil
  show ?case by simp
next
  case (Cons c cs)
  show ?case
  proof (cases "choice_delta c")
    case None
    then show ?thesis by (simp add: processChoice_no_delta validChoice_iff)
  next
    case (Some d)
    then show ?thesis
      by (simp add: processChoice_exact [OF Some] validChoice_iff Cons.IH)
  qed
qed

lemma list_all_takeWhile: "list_all P (takeWhile P xs)"
  by (induction xs) simp_all

lemma processChoices_cut:
  "snd (processChoices cs stream state) = snd (processChoices (cutChoices cs) stream state)"
proof (induction cs arbitrary: stream state)
  case Nil
  show ?case by simp
next
  case (Cons c cs)
  show ?case
  proof (cases "choice_delta c")
    case None
    then show ?thesis by (simp add: processChoice_no_delta)
  next
    case (Some d)
    show ?thesis
    proof (cases "noNull d")
      case True
      then have "cutChoices (c # cs) = c # cutChoices cs"
        using Some by (auto simp: noNull_def split: option.splits)
      with True show ?thesis
        by (simp add: processChoice_exact [OF Some] Cons.IH)
    next
      case False
      then obtain fs where fs: "delta_tool_calls d = Some fs"
        and nn: "\<not> list_all (\<lambda>f. f \<noteq> None) fs"
        by (auto simp: noNull_def split: option.splits)
      define d' where
        "d' = \<lparr> delta_content = delta_content d,
                delta_tool_calls = Some (takeWhile (\<lambda>f. f \<noteq> None) fs) \<rparr>"
      define c' where "c' = \<lparr> choice_delta = Some d', choice_finish_reason = None \<rparr>"
      have cut: "cutChoices (c # cs) = [c']"
        using Some fs nn by (simp add: c'_def d'_def)
      have cd': "choice_delta c' = Some d'" by (simp add: c'_def)
      have n': "noNull d'"
        by (simp add: noNull_def d'_def list_all_takeWhile)
      have r': "reachedFragments d' = reachedFragments d"
        by (simp add: reachedFragments_def d'_def fs takeWhile_all list_all_takeWhile)
      have t': "textEvents state d' = textEvents state d" "afterText state d' = afterText state d"
        by (simp_all add: textEvents_def afterText_def d'_def)
      have dn: "doneEvents state c d = []" "doneEvents state c' d' = []"
        using False by (simp_all add: doneEvents_def c'_def)
      show ?thesis
        unfolding cut
        by (simp add: processChoice_exact [OF Some] processChoice_exact [OF cd'] False n' r' t' dn)
    qed
  qed
qed

lemma cutChoices_valid: "list_all validChoice (cutChoices cs)"
proof (induction cs)
  case Nil
  show ?case by simp
next
  case (Cons c cs)
  then show ?case
    by (auto simp: validChoice_def list_all_takeWhile split: option.splits)
qed

lemma cutChoices_id: "list_all validChoice cs \<Longrightarrow> cutChoices cs = cs"
  by (induction cs) (auto simp: validChoice_def split: option.splits)

lemma cutChoices_no_delta:
  "choice_delta c = None \<Longrightarrow> cutChoices (cs @ c # rest) = cutChoices cs"
  by (induction cs) (auto split: option.splits)

lemma responseId_processChoices:
  "responseId (snd (snd (processChoices cs stream state))) = responseId state"
proof (induction cs arbitrary: stream state)
  case Nil
  show ?case by simp
next
  case (Cons c cs)
  show ?case
  proof (cases "choice_delta c")
    case None
    then show ?thesis by (simp add: processChoice_no_delta)
  next
    case (Some d)
    then show ?thesis
      by (simp add: processChoice_exact [OF Some] Cons.IH responseId_afterText)
  qed
qed

lemma tryBlock_valid: "fst (tryBlock raw stream state) = None \<longleftrightarrow> validChunk raw"
  by (cases raw) (simp_all add: Let_def processChoices_error split: option.splits)

lemma validPrefix_valid: "validChunk (Parsed (validPrefix chunk))"
  by (simp add: validPrefix_def cutChoices_valid split: option.splits)

lemma validPrefix_id: "validChunk (Parsed chunk) \<Longrightarrow> validPrefix chunk = chunk"
  by (cases "chunk_choices chunk") (simp_all add: validPrefix_def cutChoices_id)

lemma processStreamChunk_cut:
  "processStreamChunk (Parsed chunk) stream state
     = processStreamChunk (Parsed (validPrefix chunk)) stream state"
proof (cases "chunk_choices chunk")
  case None
  then show ?thesis
    by (simp add: processStreamChunk_tryBlock validPrefix_def Let_def)
next
  case (Some cs)
  then show ?thesis
    using processChoices_cut [of cs stream state]
      processChoices_cut [of cs stream "state\<lparr>responseId := toString (chunk_id chunk)\<rparr>"]
    by (simp add: processStreamChunk_tryBlock validPrefix_def Let_def)
qed

lemma responseId_processStreamChunk:
  "responseId (snd (processStreamChunk (Parsed chunk) stream state))
     = (case chunk_id chunk of
          Some i \<Rightarrow> if i = [] then responseId state else i
        | None \<Rightarrow> responseId state)"
  by (cases "chunk_id chunk"; cases "chunk_choices chunk")
     (simp_all add: processStreamChunk_tryBlock Let_def responseId_processChoices)

lemma handleResponses_cong:
  assumes "\<And>stream state. processStreamChunk a stream state = processStreamChunk b stream state"
  shows "handleResponses model t0 t1 t2 (pre @ a # post)
           = handleResponses model t0 t1 t2 (pre @ b # post)"
  by (simp add: handleResponses_def forAwait_append assms split: prod.splits)

text \<open>
  Claim C4, as amended. A record whose data cannot be parsed is discarded: it writes no
  event, leaves the state as it was, and the events of the whole stream are those of the
  stream without it. A record that parses but cannot be decoded as a valid chunk (it has
  no \<open>choices\<close>, or a choice without \<open>delta\<close>, or a \<open>null\<close> tool-call fragment) is processed
  up to the point of failure and no further: the sequencer does on it exactly what it
  does on its valid prefix, which keeps the id, the choices before the failing one and,
  of a choice failing at a \<open>null\<close> fragment, the text and the fragments before it, without
  text-done. So the id of such a record is adopted when it is not empty, the events of
  the part before the failure are written, and nothing is written for the rest. In every
  case the failure is swallowed: the events of the whole stream are those of the stream
  with the record replaced by its valid prefix, every record only appends events, and the
  accumulated text, as the terminal event reports it, is the concatenation of the text
  deltas written.
\<close>

theorem malformed_record_handling:
  "handleResponses model t0 t1 t2 (pre @ Unparseable # post)
     = handleResponses model t0 t1 t2 (pre @ post)
   \<and> processStreamChunk Unparseable stream state = (stream, state)
   \<and> (fst (tryBlock raw stream state) = None) = validChunk raw
   \<and> validChunk (Parsed (validPrefix chunk))
   \<and> (validChunk (Parsed chunk) \<longrightarrow> validPrefix chunk = chunk)
   \<and> processStreamChunk (Parsed chunk) stream state
       = processStreamChunk (Parsed (validPrefix chunk)) stream state
   \<and> handleResponses model t0 t1 t2 (pre @ Parsed chunk # post)
       = handleResponses model t0 t1 t2 (pre @ Parsed (validPrefix chunk) # post)
   \<and> (choice_delta c = None \<longrightarrow>
        processStreamChunk (Parsed \<lparr> chunk_id = cid, chunk_choices = Some (cs @ c # rest) \<rparr>)
            stream state
          = processStreamChunk (Parsed \<lparr> chunk_id = cid, chunk_choices = Some cs \<rparr>) stream state)
   \<and> processStreamChunk (Parsed \<lparr> chunk_id = cid, chunk_choices = None \<rparr>) stream state
       = (stream, if truthy cid then state\<lparr>responseId := toString cid\<rparr> else state)
   \<and> responseId (snd (processStreamChunk (Parsed chunk) stream state))
       = (case chunk_id chunk of
            Some i \<Rightarrow> if i = [] then responseId state else i
          | None \<Rightarrow> responseId state)
   \<and> extends stream state (processStreamChunk raw stream state)
   \<and> map_option pr_output_text
       (ev_response (sse_data (last (handleResponses model t0 t1 t2 raws))))
       = Some (Some (textDeltas (handleResponses model t0 t1 t2 raws)))"
proof -
  have a: "handleResponses model t0 t1 t2 (pre @ Unparseable # post)
             = handleResponses model t0 t1 t2 (pre @ post)"
    by (simp add: handleResponses_def forAwait_append processStreamChunk_def split: prod.splits)
  have b: "processStreamChunk Unparseable stream state = (stream, state)"
    by (simp add: processStreamChunk_def)
  have g: "handleResponses model t0 t1 t2 (pre @ Parsed chunk # post)
             = handleResponses model t0 t1 t2 (pre @ Parsed (validPrefix chunk) # post)"
    by (rule handleResponses_cong) (rule processStreamChunk_cut)
  have h: "processStreamChunk (Parsed \<lparr> chunk_id = cid, chunk_choices = Some (cs @ c # rest) \<rparr>)
             stream state
           = processStreamChunk (Parsed \<lparr> chunk_id = cid, chunk_choices = Some cs \<rparr>) stream state"
    if "choice_delta c = None"
    using processStreamChunk_cut [of "\<lparr> chunk_id = cid, chunk_choices = Some (cs @ c # rest) \<rparr>"]
      processStreamChunk_cut [of "\<lparr> chunk_id = cid, chunk_choices = Some cs \<rparr>"]
    by (simp add: validPrefix_def cutChoices_no_delta [OF that])
  have i: "processStreamChunk (Parsed \<lparr> chunk_id = cid, chunk_choices = None \<rparr>) stream state
             = (stream, if truthy cid then state\<lparr>responseId := toString cid\<rparr> else state)"
    by (simp add: processStreamChunk_tryBlock Let_def)
  show ?thesis
    by (intro conjI impI a b g i tryBlock_valid validPrefix_valid processStreamChunk_cut
          responseId_processStreamChunk extends_processStreamChunk final_text_is_textDeltas)
       (simp_all add: validPrefix_id h)
qed

text \<open>
  Two records that are not valid chunks. The one whose second choice has no \<open>delta\<close>
  writes the text delta of its first choice; the one with a \<open>null\<close> fragment writes the
  text delta and the start event before the \<open>null\<close>, and neither the later fragment, the
  text-done event nor anything of its second choice; each takes its id. The chunk after a
  failing record still produces its events, and an unparseable record between the two
  chunks of the text scenario changes nothing.
\<close>

theorem malformed_record_handling_witness:
  "\<not> validChunk halfValidChunk \<and> \<not> validChunk nullFragmentChunk
   \<and> fst (tryBlock nullFragmentChunk [] (createStreamState ''m'' 0)) = Some TypeError
   \<and> map sse_event (fst (processStreamChunk nullFragmentChunk [] (createStreamState ''m'' 0)))
       = [''response.output_text.delta'', ''response.function_call_arguments.start'']
   \<and> responseId (snd (processStreamChunk nullFragmentChunk [] (createStreamState ''m'' 0)))
       = ''chatcmpl-2''
   \<and> map sse_event (fst (forAwait [halfValidChunk, worldChunk None] []
                           (createStreamState ''m'' 0)))
       = [''response.output_text.delta'', ''response.output_text.delta'',
          ''response.output_text.done'']
   \<and> handleResponses ''m'' 0 0 0 [helloChunk None, Unparseable, worldChunk None]
       = handleResponses ''m'' 0 0 0 [helloChunk None, worldChunk None]"
proof -
  obtain chunk where chunk: "nullFragmentChunk = Parsed chunk"
    by (simp add: nullFragmentChunk_def)
  have v: "\<not> validChunk halfValidChunk" "\<not> validChunk nullFragmentChunk"
    by (simp_all add: halfValidChunk_def nullFragmentChunk_def validChoice_def)
  have e: "processStreamChunk nullFragmentChunk [] (createStreamState ''m'' 0)
             = processStreamChunk (Parsed (validPrefix chunk)) [] (createStreamState ''m'' 0)"
    "fst (tryBlock nullFragmentChunk [] (createStreamState ''m'' 0)) \<noteq> None"
    "handleResponses ''m'' 0 0 0 ([helloChunk None] @ Unparseable # [worldChunk None])
       = handleResponses ''m'' 0 0 0 ([helloChunk None] @ [worldChunk None])"
    using v malformed_record_handling
        [where raw = nullFragmentChunk and chunk = chunk and stream = "[]"
           and state = "createStreamState ''m'' 0" and pre = "[helloChunk None]"
           and post = "[worldChunk None]" and model = "''m''"
           and ?t0.0 = 0 and ?t1.0 = 0 and ?t2.0 = 0]
    by (simp_all add: chunk)
  have p: "validPrefix chunk =
      \<lparr> chunk_id = Some ''chatcmpl-2'',
        chunk_choices =
          Some [\<lparr> choice_delta =
                    Some \<lparr> delta_content = Some ''Hi'',
                           delta_tool_calls =
                             Some [Some \<lparr> tc_index = 0, tc_id = Some ''c1'',
                                          tc_function = Some \<lparr> fn_name = Some ''get_weather'',
                                                                fn_arguments = None \<rparr> \<rparr>] \<rparr>,
                  choice_finish_reason = None \<rparr>] \<rparr>"
    using chunk by (auto simp: nullFragmentChunk_def validPrefix_def)
  have r: "map sse_event
             (fst (processStreamChunk (Parsed (validPrefix chunk)) [] (createStreamState ''m'' 0)))
           = [''response.output_text.delta'', ''response.function_call_arguments.start'']"
    "responseId (snd (processStreamChunk (Parsed (validPrefix chunk)) []
                        (createStreamState ''m'' 0))) = ''chatcmpl-2''"
    unfolding p
    by (simp_all add: processStreamChunk_def processChoice_def processToolCalls_def
        createStreamState_def sendTextDeltaEvent_def sendFunctionCallStartEvent_def
        functionName_def functionArguments_def writeSSE_def Let_def)
  have t: "fst (tryBlock nullFragmentChunk [] (createStreamState ''m'' 0)) = Some TypeError"
    by (simp add: nullFragmentChunk_def processChoice_def processToolCalls_def
        functionName_def functionArguments_def Let_def)
  have w: "map sse_event (fst (forAwait [halfValidChunk, worldChunk None] []
                           (createStreamState ''m'' 0)))
       = [''response.output_text.delta'', ''response.output_text.delta'',
          ''response.output_text.done'']"
    by (simp add: halfValidChunk_def worldChunk_def processStreamChunk_def processChoice_def
        createStreamState_def sendTextDeltaEvent_def sendTextDoneEvent_def writeSSE_def Let_def)
  show ?thesis
    using v e r t w by simp
qed

text \<open>
  Claim C4 as stated fails. The record whose second choice has no \<open>delta\<close> cannot be
  decoded as a valid chunk (processing it ends in a type error), yet a text-delta event
  is written for it and the state takes its id and its text.
\<close>

theorem malformed_record_counterexample:
  "fst (tryBlock halfValidChunk [] (createStreamState ''m'' 0)) = Some TypeError
   \<and> map sse_event (fst (processStreamChunk halfValidChunk [] (createStreamState ''m'' 0)))
       = [''response.output_text.delta'']
   \<and> outputText (snd (processStreamChunk halfValidChunk [] (createStreamState ''m'' 0))) = ''Hi''
   \<and> responseId (snd (processStreamChunk halfValidChunk [] (createStreamState ''m'' 0)))
       = ''chatcmpl-1''"
  by (simp add: halfValidChunk_def processStreamChunk_def processChoice_def
        createStreamState_def sendTextDeltaEvent_def writeSSE_def Let_def)

end
